theory Spec2Isabelle
  imports Main "HOL-Library.Word"
begin

section \<open>The Janus gateway client of janus.go\<close>

text \<open>
  The package keeps one connection to a Janus gateway. Requests are tagged with a
  transaction id and registered; the receive loop hands every inbound message either to
  the channel of the request it answers or to the event channel of a plugin handle.
  The model is sequential: every source function becomes a function on an explicit
  program state, and what the environment decides (the transport, the JSON decoder, the
  id generator, the timing of a \<^verbatim>\<open>select\<close>) is an argument.
\<close>

subsection \<open>Values\<close>

type_synonym uint64 = "64 word"

text \<open>\<^verbatim>\<open>xid.ID\<close> is an array of twelve bytes.\<close>

type_synonym xid = "96 word"

text \<open>A channel and a \<^verbatim>\<open>*Session\<close> are references; opaque JSON payloads are text.\<close>

type_synonym chan = nat
type_synonym sref = nat
type_synonym json = string

text \<open>
  Modelled from the spec: the inbound message types of the package (\<^verbatim>\<open>SuccessMsg\<close>,
  \<^verbatim>\<open>ErrorMsg\<close>, \<^verbatim>\<open>AckMsg\<close>, \<^verbatim>\<open>EventMsg\<close>, \<^verbatim>\<open>InfoMsg\<close> and the further kinds
  reached through the type table) are declared outside janus.go. The spec gives a
  discriminated variant: Success carries the new id, Error a code and a reason, Ack
  nothing, Event a plugin payload and an optional negotiation payload, Info a snapshot,
  and an open bucket of other kinds named by their type tag.
\<close>

datatype msg =
    SuccessMsg uint64
  | ErrorMsg int string
  | AckMsg
  | EventMsg json "json option"
  | InfoMsg json
  | OtherMsg string json

text \<open>
  Modelled from the spec: the common envelope \<^verbatim>\<open>BaseMsg\<close> is declared outside janus.go;
  the receive loop reads its type tag, transaction id, session id and handle id.
\<close>

record BaseMsg =
  Type :: string
  ID :: string
  Session :: uint64
  Handle :: uint64

text \<open>
  An \<^verbatim>\<open>error\<close> value is built by \<^verbatim>\<open>fmt.Errorf\<close>, is an \<^verbatim>\<open>*ErrorMsg\<close> returned as an
  error, or comes from outside the package (transport, JSON, context).
\<close>

datatype error =
    Errorf string
  | ReplyError int string
  | External string

text \<open>
  A Go function returning \<^verbatim>\<open>(*T, error)\<close> returns a pair of nullable values, or panics.
\<close>

datatype 'a result =
    Return "'a option" "error option"
  | Panic string

definition nil_dereference :: string where
  "nil_dereference = ''invalid memory address or nil pointer dereference''"

definition quoted :: "string \<Rightarrow> string" where
  "quoted s = CHR 0x27 # s @ [CHR 0x27]"

definition newline :: string where
  "newline = [CHR 0x0A]"

definition timeoutDuration :: nat where
  "timeoutDuration = 1 * 1000000000"

definition unexpected :: "string \<Rightarrow> error" where
  "unexpected request =
     Errorf (''Unexpected response received to '' @ quoted request @ '' request'')"

definition timeout_error :: "string \<Rightarrow> error" where
  "timeout_error what = Errorf (''timeout waiting for response to '' @ what)"

subsection \<open>What the package does not contain\<close>

text \<open>
  The xid library, the JSON decoder and the table \<^verbatim>\<open>msgtypes\<close> are parameters. The table
  maps a type tag to the empty message its constructor returns; decoding fills it.
\<close>

record extern =
  xid_String :: "xid \<Rightarrow> string"
  xid_FromString :: "string \<Rightarrow> xid"
  Unmarshal_BaseMsg :: "string \<Rightarrow> error + BaseMsg"
  msgtypes :: "string \<rightharpoonup> msg"
  Unmarshal_msg :: "msg \<Rightarrow> string \<Rightarrow> error + msg"

text \<open>What one call of \<^verbatim>\<open>Gateway.send\<close> meets: the outcome of encoding and of writing.\<close>

record send_io =
  marshal_err :: "error option"
  write_err :: "error option"

subsection \<open>The select statement of a request\<close>

text \<open>
  Every request waits in a \<^verbatim>\<open>select\<close> with three cases, in this order: the timer
  \<^verbatim>\<open>time.After(timeoutDuration)\<close>, the context's \<^verbatim>\<open>Done\<close> channel and the request's own
  channel. A case can proceed from the moment its channel is ready (nanoseconds from the
  start of the select); the earliest ready case runs, and among cases ready at the same
  moment Go picks one at random, here by \<open>choice\<close>.
\<close>

datatype select_outcome =
    TimedOut
  | CtxDone error
  | Received msg

record wait_env =
  reply_at :: "(nat \<times> msg) option"
  done_at :: "(nat \<times> error) option"
  choice :: nat

definition select_cases :: "nat \<Rightarrow> wait_env \<Rightarrow> (nat \<times> select_outcome) list" where
  "select_cases d e =
     [(d, TimedOut)]
     @ (case done_at e of None \<Rightarrow> [] | Some (t, err) \<Rightarrow> [(t, CtxDone err)])
     @ (case reply_at e of None \<Rightarrow> [] | Some (t, m) \<Rightarrow> [(t, Received m)])"

definition select_wait :: "nat \<Rightarrow> wait_env \<Rightarrow> select_outcome" where
  "select_wait d e =
     (let cases = select_cases d e;
          t0 = fold min (map fst cases) d;
          ready = filter (\<lambda>c. fst c = t0) cases
      in snd (ready ! (choice e mod length ready)))"

subsection \<open>Gateway, Session, Handle\<close>

record Handle =
  Handle_ID :: uint64
  Handle_Type :: string
  Handle_User :: string
  Handle_Events :: chan
  Handle_session :: sref

record Session =
  Session_ID :: uint64
  Handles :: "uint64 \<rightharpoonup> Handle"
  Session_Events :: chan

datatype jvalue =
    JString string
  | JUint uint64
  | JValue json

type_synonym envelope = "string \<rightharpoonup> jvalue"

datatype stdout_line =
    Printf string
  | Printf_error string error
  | JsonTx envelope
  | JsonRx string

text \<open>
  The fields of \<^verbatim>\<open>Gateway\<close>, and around them the rest of the program state: the
  \<^verbatim>\<open>Session\<close> objects that \<^verbatim>\<open>*Session\<close> pointers refer to (a \<^verbatim>\<open>Session\<close> refers back
  to this gateway), the channels made so far with their capacities, the requests written
  to the connection (each as the envelope whose JSON text was written), standard output,
  and the \<^verbatim>\<open>passMsg\<close> goroutines started, each with the channel it sends on and the
  message it sends. A \<^verbatim>\<open>Handle\<close> is never changed by the package after \<^verbatim>\<open>Attach\<close> has
  built it, so handles are kept as values.
\<close>

record Gateway =
  Sessions :: "uint64 \<rightharpoonup> sref"
  transactions :: "xid \<rightharpoonup> chan"
  transactionsUsed :: "xid \<rightharpoonup> bool"
  apiSecret :: string
  LogJsonMessages :: bool

record state = Gateway +
  heap :: "sref \<rightharpoonup> Session"
  next_sref :: sref
  chans :: "nat list"
  conn :: "envelope list"
  stdout :: "stdout_line list"
  goroutines :: "(chan \<times> msg) list"

definition Connect :: "string \<Rightarrow> state" where
  "Connect secret =
     \<lparr>Sessions = Map.empty, transactions = Map.empty, transactionsUsed = Map.empty,
      apiSecret = secret, LogJsonMessages = False,
      heap = Map.empty, next_sref = 0, chans = [], conn = [], stdout = [],
      goroutines = []\<rparr>"

definition make_chan :: "nat \<Rightarrow> state \<Rightarrow> chan \<times> state" where
  "make_chan capacity w = (length (chans w), w\<lparr>chans := chans w @ [capacity]\<rparr>)"

definition newRequest :: "string \<Rightarrow> state \<Rightarrow> envelope \<times> chan \<times> state" where
  "newRequest method w =
     (let (ch, w') = make_chan 0 w
      in ([''janus'' \<mapsto> JString method], ch, w'))"

text \<open>A Go map of booleans reads \<^verbatim>\<open>false\<close> at a missing key.\<close>

definition used :: "(xid \<rightharpoonup> bool) \<Rightarrow> xid \<Rightarrow> bool" where
  "used m k = (case m k of None \<Rightarrow> False | Some b \<Rightarrow> b)"

subsection \<open>Sending\<close>

definition Gateway_send ::
  "extern \<Rightarrow> xid \<Rightarrow> send_io \<Rightarrow> envelope \<Rightarrow> chan \<Rightarrow> state \<Rightarrow> error option \<times> state" where
  "Gateway_send X guid io msg transaction w =
     (let msg1 = msg(''transaction'' \<mapsto> JString (xid_String X guid));
          msg2 = (if apiSecret w \<noteq> '''' then msg1(''apisecret'' \<mapsto> JString (apiSecret w))
                  else msg1);
          w1 = w\<lparr>transactions := (transactions w)(guid \<mapsto> transaction),
                 transactionsUsed := (transactionsUsed w)(guid \<mapsto> False)\<rparr>
      in case marshal_err io of
           Some err \<Rightarrow> (Some err, w1)
         | None \<Rightarrow>
             (let w2 = (if LogJsonMessages w1 then w1\<lparr>stdout := stdout w1 @ [JsonTx msg2]\<rparr>
                        else w1)
              in case write_err io of
                   Some err \<Rightarrow> (Some err, w2)
                 | None \<Rightarrow> (None, w2\<lparr>conn := conn w2 @ [msg2]\<rparr>)))"

text \<open>
  \<^verbatim>\<open>Session.send\<close> reads \<^verbatim>\<open>session.ID\<close>: on a pointer that refers to no \<^verbatim>\<open>Session\<close>
  the program panics (\<open>Inl\<close>).
\<close>

definition Session_send ::
  "extern \<Rightarrow> sref \<Rightarrow> xid \<Rightarrow> send_io \<Rightarrow> envelope \<Rightarrow> chan \<Rightarrow> state
     \<Rightarrow> string + error option \<times> state" where
  "Session_send X session guid io msg transaction w =
     (case heap w session of
        None \<Rightarrow> Inl nil_dereference
      | Some s \<Rightarrow>
          Inr (Gateway_send X guid io (msg(''session_id'' \<mapsto> JUint (Session_ID s)))
                 transaction w))"

definition Handle_send ::
  "extern \<Rightarrow> Handle \<Rightarrow> xid \<Rightarrow> send_io \<Rightarrow> envelope \<Rightarrow> chan \<Rightarrow> state
     \<Rightarrow> string + error option \<times> state" where
  "Handle_send X handle guid io msg transaction w =
     Session_send X (Handle_session handle) guid io
       (msg(''handle_id'' \<mapsto> JUint (Handle_ID handle))) transaction w"

subsection \<open>Requests on the gateway\<close>

text \<open>
  Each request builds its envelope, sends it, and waits in one \<^verbatim>\<open>select\<close>. The arguments
  \<open>guid\<close>, \<open>io\<close> and \<open>e\<close> are what \<^verbatim>\<open>generateTransactionId\<close> returns, what the send
  meets and what the select meets.
\<close>

definition Info ::
  "extern \<Rightarrow> xid \<Rightarrow> send_io \<Rightarrow> wait_env \<Rightarrow> state \<Rightarrow> msg result \<times> state" where
  "Info X guid io e w =
     (let (req, ch, w0) = newRequest ''info'' w;
          (err, w1) = Gateway_send X guid io req ch w0
      in case err of
           Some er \<Rightarrow> (Return None (Some er), w1)
         | None \<Rightarrow>
             (case select_wait timeoutDuration e of
                TimedOut \<Rightarrow> (Return None (Some (timeout_error (quoted ''info''))), w1)
              | CtxDone cerr \<Rightarrow> (Return None (Some cerr), w1)
              | Received m \<Rightarrow>
                  (case m of
                     InfoMsg i \<Rightarrow> (Return (Some m) None, w1)
                   | ErrorMsg c r \<Rightarrow> (Return None (Some (ReplyError c r)), w1)
                   | _ \<Rightarrow> (Return None (Some (unexpected ''info'')), w1))))"

text \<open>
  In \<^verbatim>\<open>Create\<close> the switch has no default branch: after a reply that is neither a
  \<^verbatim>\<open>SuccessMsg\<close> nor an \<^verbatim>\<open>ErrorMsg\<close> the variable \<^verbatim>\<open>success\<close> is still nil and
  \<^verbatim>\<open>success.Data.ID\<close> panics. (The \<^verbatim>\<open>Session\<close> allocated just before is unreachable
  then and is not recorded.)
\<close>

definition Create ::
  "extern \<Rightarrow> xid \<Rightarrow> send_io \<Rightarrow> wait_env \<Rightarrow> state \<Rightarrow> sref result \<times> state" where
  "Create X guid io e w =
     (let (req, ch, w0) = newRequest ''create'' w;
          (err, w1) = Gateway_send X guid io req ch w0
      in case err of
           Some er \<Rightarrow> (Return None (Some er), w1)
         | None \<Rightarrow>
             (case select_wait timeoutDuration e of
                TimedOut \<Rightarrow> (Return None (Some (timeout_error (quoted ''create''))), w1)
              | CtxDone cerr \<Rightarrow> (Return None (Some cerr), w1)
              | Received m \<Rightarrow>
                  (case m of
                     ErrorMsg c r \<Rightarrow> (Return None (Some (ReplyError c r)), w1)
                   | SuccessMsg data_id \<Rightarrow>
                       (let session = next_sref w1;
                            (events, w2) = make_chan 2 w1;
                            s = \<lparr>Session_ID = data_id, Handles = Map.empty,
                                 Session_Events = events\<rparr>
                        in (Return (Some session) None,
                            w2\<lparr>heap := (heap w2)(session \<mapsto> s),
                               next_sref := Suc session,
                               Sessions := (Sessions w2)(Session_ID s \<mapsto> session)\<rparr>))
                   | _ \<Rightarrow> (Panic nil_dereference, w1))))"

subsection \<open>Requests on a session\<close>

definition Attach ::
  "extern \<Rightarrow> sref \<Rightarrow> string \<Rightarrow> xid \<Rightarrow> send_io \<Rightarrow> wait_env \<Rightarrow> state
     \<Rightarrow> Handle result \<times> state" where
  "Attach X session plugin guid io e w =
     (let (req0, ch, w0) = newRequest ''attach'' w;
          req = req0(''plugin'' \<mapsto> JString plugin)
      in case Session_send X session guid io req ch w0 of
           Inl p \<Rightarrow> (Panic p, w0)
         | Inr (Some er, w1) \<Rightarrow> (Return None (Some er), w1)
         | Inr (None, w1) \<Rightarrow>
             (case select_wait timeoutDuration e of
                TimedOut \<Rightarrow> (Return None (Some (timeout_error (quoted ''attach''))), w1)
              | CtxDone cerr \<Rightarrow> (Return None (Some cerr), w1)
              | Received m \<Rightarrow>
                  (case m of
                     ErrorMsg c r \<Rightarrow> (Return None (Some (ReplyError c r)), w1)
                   | SuccessMsg data_id \<Rightarrow>
                       (let (events, w2) = make_chan 8 w1;
                            handle = \<lparr>Handle_ID = data_id, Handle_Type = [],
                                      Handle_User = [], Handle_Events = events,
                                      Handle_session = session\<rparr>
                        in case heap w2 session of
                             None \<Rightarrow> (Panic nil_dereference, w2)
                           | Some s \<Rightarrow>
                               (Return (Some handle) None,
                                w2\<lparr>heap := (heap w2)(session \<mapsto>
                                     s\<lparr>Handles := (Handles s)(Handle_ID handle \<mapsto> handle)\<rparr>)\<rparr>))
                   | _ \<Rightarrow> (Panic nil_dereference, w1))))"

definition KeepAlive ::
  "extern \<Rightarrow> sref \<Rightarrow> xid \<Rightarrow> send_io \<Rightarrow> wait_env \<Rightarrow> state \<Rightarrow> msg result \<times> state" where
  "KeepAlive X session guid io e w =
     (let (req, ch, w0) = newRequest ''keepalive'' w
      in case Session_send X session guid io req ch w0 of
           Inl p \<Rightarrow> (Panic p, w0)
         | Inr (Some er, w1) \<Rightarrow> (Return None (Some er), w1)
         | Inr (None, w1) \<Rightarrow>
             (case select_wait timeoutDuration e of
                TimedOut \<Rightarrow> (Return None (Some (timeout_error (quoted ''keepalive''))), w1)
              | CtxDone cerr \<Rightarrow> (Return None (Some cerr), w1)
              | Received m \<Rightarrow>
                  (case m of
                     AckMsg \<Rightarrow> (Return (Some m) None, w1)
                   | ErrorMsg c r \<Rightarrow> (Return None (Some (ReplyError c r)), w1)
                   | _ \<Rightarrow> (Return None (Some (unexpected ''keepalive'')), w1))))"

text \<open>
  \<^verbatim>\<open>Destroy\<close> has no default branch either: after any reply that is not an
  \<^verbatim>\<open>ErrorMsg\<close> control reaches the \<^verbatim>\<open>delete\<close>, with \<^verbatim>\<open>ack\<close> nil unless the reply was
  an \<^verbatim>\<open>AckMsg\<close>.
\<close>

definition Destroy ::
  "extern \<Rightarrow> sref \<Rightarrow> xid \<Rightarrow> send_io \<Rightarrow> wait_env \<Rightarrow> state \<Rightarrow> msg result \<times> state" where
  "Destroy X session guid io e w =
     (let (req, ch, w0) = newRequest ''destroy'' w
      in case Session_send X session guid io req ch w0 of
           Inl p \<Rightarrow> (Panic p, w0)
         | Inr (Some er, w1) \<Rightarrow> (Return None (Some er), w1)
         | Inr (None, w1) \<Rightarrow>
             (case select_wait timeoutDuration e of
                TimedOut \<Rightarrow> (Return None (Some (timeout_error (quoted ''destroy''))), w1)
              | CtxDone cerr \<Rightarrow> (Return None (Some cerr), w1)
              | Received m \<Rightarrow>
                  (case m of
                     ErrorMsg c r \<Rightarrow> (Return None (Some (ReplyError c r)), w1)
                   | _ \<Rightarrow>
                       (let ack = (case m of AckMsg \<Rightarrow> Some m | _ \<Rightarrow> None)
                        in case heap w1 session of
                             None \<Rightarrow> (Panic nil_dereference, w1)
                           | Some s \<Rightarrow>
                               (Return ack None,
                                w1\<lparr>Sessions := (Sessions w1)(Session_ID s := None)\<rparr>)))))"

subsection \<open>Requests on a handle\<close>

definition Request ::
  "extern \<Rightarrow> Handle \<Rightarrow> json option \<Rightarrow> xid \<Rightarrow> send_io \<Rightarrow> wait_env \<Rightarrow> state
     \<Rightarrow> msg result \<times> state" where
  "Request X handle body guid io e w =
     (let (req0, ch, w0) = newRequest ''message'' w;
          req = (case body of None \<Rightarrow> req0 | Some b \<Rightarrow> req0(''body'' \<mapsto> JValue b))
      in case Handle_send X handle guid io req ch w0 of
           Inl p \<Rightarrow> (Panic p, w0)
         | Inr (Some er, w1) \<Rightarrow> (Return None (Some er), w1)
         | Inr (None, w1) \<Rightarrow>
             (case select_wait timeoutDuration e of
                TimedOut \<Rightarrow> (Return None (Some (timeout_error (quoted ''message''))), w1)
              | CtxDone cerr \<Rightarrow> (Return None (Some cerr), w1)
              | Received m \<Rightarrow>
                  (case m of
                     SuccessMsg data_id \<Rightarrow> (Return (Some m) None, w1)
                   | ErrorMsg c r \<Rightarrow> (Return None (Some (ReplyError c r)), w1)
                   | _ \<Rightarrow> (Return None (Some (unexpected ''message'')), w1))))"

text \<open>
  \<^verbatim>\<open>Message\<close> jumps back to its \<^verbatim>\<open>select\<close> after an \<^verbatim>\<open>AckMsg\<close>, with a new timer.
  The list holds what each successive \<^verbatim>\<open>select\<close> meets; \<open>None\<close> says that after all of
  them the call has not returned and is waiting in a further \<^verbatim>\<open>select\<close>.
\<close>

fun GetMessage :: "wait_env list \<Rightarrow> msg result option" where
  "GetMessage [] = None"
| "GetMessage (e # es) =
     (case select_wait timeoutDuration e of
        TimedOut \<Rightarrow> Some (Return None (Some (timeout_error (quoted ''message''))))
      | CtxDone cerr \<Rightarrow> Some (Return None (Some cerr))
      | Received m \<Rightarrow>
          (case m of
             AckMsg \<Rightarrow> GetMessage es
           | EventMsg p j \<Rightarrow> Some (Return (Some m) None)
           | ErrorMsg c r \<Rightarrow> Some (Return None (Some (ReplyError c r)))
           | _ \<Rightarrow> Some (Return None (Some (unexpected ''message'')))))"

definition Message ::
  "extern \<Rightarrow> Handle \<Rightarrow> json option \<Rightarrow> json option \<Rightarrow> xid \<Rightarrow> send_io \<Rightarrow> wait_env list
     \<Rightarrow> state \<Rightarrow> msg result option \<times> state" where
  "Message X handle body jsep guid io es w =
     (let (req0, ch, w0) = newRequest ''message'' w;
          req1 = (case body of None \<Rightarrow> req0 | Some b \<Rightarrow> req0(''body'' \<mapsto> JValue b));
          req = (case jsep of None \<Rightarrow> req1 | Some j \<Rightarrow> req1(''jsep'' \<mapsto> JValue j))
      in case Handle_send X handle guid io req ch w0 of
           Inl p \<Rightarrow> (Some (Panic p), w0)
         | Inr (Some er, w1) \<Rightarrow> (Some (Return None (Some er)), w1)
         | Inr (None, w1) \<Rightarrow> (GetMessage es, w1))"

definition Trickle ::
  "extern \<Rightarrow> Handle \<Rightarrow> json \<Rightarrow> xid \<Rightarrow> send_io \<Rightarrow> wait_env \<Rightarrow> state
     \<Rightarrow> msg result \<times> state" where
  "Trickle X handle candidate guid io e w =
     (let (req0, ch, w0) = newRequest ''trickle'' w;
          req = req0(''candidate'' \<mapsto> JValue candidate)
      in case Handle_send X handle guid io req ch w0 of
           Inl p \<Rightarrow> (Panic p, w0)
         | Inr (Some er, w1) \<Rightarrow> (Return None (Some er), w1)
         | Inr (None, w1) \<Rightarrow>
             (case select_wait timeoutDuration e of
                TimedOut \<Rightarrow> (Return None (Some (timeout_error (quoted ''trickle''))), w1)
              | CtxDone cerr \<Rightarrow> (Return None (Some cerr), w1)
              | Received m \<Rightarrow>
                  (case m of
                     AckMsg \<Rightarrow> (Return (Some m) None, w1)
                   | ErrorMsg c r \<Rightarrow> (Return None (Some (ReplyError c r)), w1)
                   | _ \<Rightarrow> (Return None (Some (unexpected ''trickle'')), w1))))"

definition TrickleMany ::
  "extern \<Rightarrow> Handle \<Rightarrow> json \<Rightarrow> xid \<Rightarrow> send_io \<Rightarrow> wait_env \<Rightarrow> state
     \<Rightarrow> msg result \<times> state" where
  "TrickleMany X handle candidates guid io e w =
     (let (req0, ch, w0) = newRequest ''trickle'' w;
          req = req0(''candidates'' \<mapsto> JValue candidates)
      in case Handle_send X handle guid io req ch w0 of
           Inl p \<Rightarrow> (Panic p, w0)
         | Inr (Some er, w1) \<Rightarrow> (Return None (Some er), w1)
         | Inr (None, w1) \<Rightarrow>
             (case select_wait timeoutDuration e of
                TimedOut \<Rightarrow>
                  (Return None (Some (timeout_error (quoted ''trickle'' @ ''/many''))), w1)
              | CtxDone cerr \<Rightarrow> (Return None (Some cerr), w1)
              | Received m \<Rightarrow>
                  (case m of
                     AckMsg \<Rightarrow> (Return (Some m) None, w1)
                   | ErrorMsg c r \<Rightarrow> (Return None (Some (ReplyError c r)), w1)
                   | _ \<Rightarrow> (Return None (Some (unexpected ''trickle'')), w1))))"

text \<open>\<^verbatim>\<open>Detach\<close> is written like \<^verbatim>\<open>Destroy\<close>, on the handle map of the handle's session.\<close>

definition Detach ::
  "extern \<Rightarrow> Handle \<Rightarrow> xid \<Rightarrow> send_io \<Rightarrow> wait_env \<Rightarrow> state \<Rightarrow> msg result \<times> state" where
  "Detach X handle guid io e w =
     (let (req, ch, w0) = newRequest ''detach'' w
      in case Handle_send X handle guid io req ch w0 of
           Inl p \<Rightarrow> (Panic p, w0)
         | Inr (Some er, w1) \<Rightarrow> (Return None (Some er), w1)
         | Inr (None, w1) \<Rightarrow>
             (case select_wait timeoutDuration e of
                TimedOut \<Rightarrow> (Return None (Some (timeout_error (quoted ''detach''))), w1)
              | CtxDone cerr \<Rightarrow> (Return None (Some cerr), w1)
              | Received m \<Rightarrow>
                  (case m of
                     ErrorMsg c r \<Rightarrow> (Return None (Some (ReplyError c r)), w1)
                   | _ \<Rightarrow>
                       (let ack = (case m of AckMsg \<Rightarrow> Some m | _ \<Rightarrow> None)
                        in case heap w1 (Handle_session handle) of
                             None \<Rightarrow> (Panic nil_dereference, w1)
                           | Some s \<Rightarrow>
                               (Return ack None,
                                w1\<lparr>heap := (heap w1)(Handle_session handle \<mapsto>
                                     s\<lparr>Handles := (Handles s)(Handle_ID handle := None)\<rparr>)\<rparr>)))))"

subsection \<open>The receive loop\<close>

text \<open>
  One turn of the loop of \<^verbatim>\<open>recv\<close>, on what \<^verbatim>\<open>conn.Read\<close> returns. The result is the error
  the loop returns with, or \<open>None\<close> when the loop goes on to its next turn. The second half
  of the turn, from the lookup of \<^verbatim>\<open>transactionsUsed\<close> on, is \<open>route\<close>. A session pointer
  read from \<^verbatim>\<open>Sessions\<close> that refers to no \<^verbatim>\<open>Session\<close> is a nil pointer.
\<close>

definition route :: "extern \<Rightarrow> BaseMsg \<Rightarrow> msg \<Rightarrow> state \<Rightarrow> error option \<times> state" where
  "route X base m w =
     (let transactionUsed =
            (if ID base \<noteq> [] then used (transactionsUsed w) (xid_FromString X (ID base))
             else False)
      in if ID base = [] \<or> transactionUsed then
           (if Handle base = 0 then (None, w)
            else
              (case (case Sessions w (Session base) of None \<Rightarrow> None | Some r \<Rightarrow> heap w r) of
                 None \<Rightarrow>
                   (None, w\<lparr>stdout := stdout w @
                      [Printf (''Unable to deliver message. Session gone?'' @ newline)]\<rparr>)
               | Some session \<Rightarrow>
                   (case Handles session (Handle base) of
                      None \<Rightarrow>
                        (None, w\<lparr>stdout := stdout w @
                           [Printf (''Unable to deliver message. Handle gone?'' @ newline)]\<rparr>)
                    | Some handle \<Rightarrow>
                        (None, w\<lparr>goroutines := goroutines w @ [(Handle_Events handle, m)]\<rparr>))))
         else
           (let id = xid_FromString X (ID base);
                transaction = transactions w id;
                w1 = (case m of
                        EventMsg p j \<Rightarrow> w\<lparr>transactionsUsed := (transactionsUsed w)(id \<mapsto> True)\<rparr>
                      | _ \<Rightarrow> w)
            in case transaction of
                 None \<Rightarrow> (Some (Errorf ''null transaction''), w1)
               | Some ch \<Rightarrow> (None, w1\<lparr>goroutines := goroutines w1 @ [(ch, m)]\<rparr>)))"

definition recv_step :: "extern \<Rightarrow> error + string \<Rightarrow> state \<Rightarrow> error option \<times> state" where
  "recv_step X rd w =
     (case rd of
        Inl err \<Rightarrow> (Some err, w)
      | Inr data \<Rightarrow>
          (case Unmarshal_BaseMsg X data of
             Inl err \<Rightarrow> (Some err, w)
           | Inr base \<Rightarrow>
               (let w1 = (if LogJsonMessages w then w\<lparr>stdout := stdout w @ [JsonRx data]\<rparr>
                          else w)
                in case msgtypes X (Type base) of
                     None \<Rightarrow>
                       (None, w1\<lparr>stdout := stdout w1 @
                          [Printf (''Unknown message type received!'' @ newline)]\<rparr>)
                   | Some typeFunc \<Rightarrow>
                       (case Unmarshal_msg X typeFunc data of
                          Inl err \<Rightarrow>
                            (Some err, w1\<lparr>stdout := stdout w1 @
                               [Printf_error (''json.Unmarshal: %s'' @ newline) err]\<rparr>)
                        | Inr m \<Rightarrow> route X base m w1))))"

text \<open>
  The loop over the successive results of \<^verbatim>\<open>conn.Read\<close>. It returns with the first error
  of a turn and reads no further; with no result left it is blocked in \<^verbatim>\<open>conn.Read\<close> and
  has not returned (\<open>None\<close>).
\<close>

fun recv :: "extern \<Rightarrow> (error + string) list \<Rightarrow> state \<Rightarrow> error option \<times> state" where
  "recv X [] w = (None, w)"
| "recv X (rd # rds) w =
     (case recv_step X rd w of
        (Some err, w') \<Rightarrow> (Some err, w')
      | (None, w') \<Rightarrow> recv X rds w')"

subsection \<open>Delivery\<close>

text \<open>
  \<^verbatim>\<open>passMsg\<close> runs as a goroutine. Its \<^verbatim>\<open>select\<close> has two cases, the send of the message
  on the channel and the timer \<^verbatim>\<open>time.After(timeoutDuration)\<close>. The send can proceed from
  the moment \<open>accepted_at\<close> on (a receiver waits, or the buffer has room), if there is
  one; at the very moment of the timer Go picks either case, here by \<open>pick\<close>.
\<close>

datatype pass_outcome =
    Sent chan msg
  | Discarded msg

definition passMsg :: "chan \<Rightarrow> msg \<Rightarrow> nat option \<Rightarrow> nat \<Rightarrow> pass_outcome" where
  "passMsg ch m accepted_at pick =
     (case accepted_at of
        None \<Rightarrow> Discarded m
      | Some t \<Rightarrow>
          if t < timeoutDuration \<or> (t = timeoutDuration \<and> even pick) then Sent ch m
          else Discarded m)"

subsection \<open>Runs of the package\<close>

text \<open>
  What can happen to the state of one connection: a turn of the receive loop, or one of
  the ten requests with any arguments, each taken as one step. A run starts in the state
  that \<^verbatim>\<open>Connect\<close> builds. (\<^verbatim>\<open>KeepAliveSender\<close> is a sequence of \<^verbatim>\<open>KeepAlive\<close>
  requests; \<^verbatim>\<open>ping\<close> and \<^verbatim>\<open>Close\<close> act on the connection only and are left out. A
  run may go on with further turns after a turn that returned an error, which the loop
  \<open>recv\<close> itself does not.)
\<close>

datatype op =
    Op_recv "error + string"
  | Op_Info xid send_io wait_env
  | Op_Create xid send_io wait_env
  | Op_Attach sref string xid send_io wait_env
  | Op_KeepAlive sref xid send_io wait_env
  | Op_Destroy sref xid send_io wait_env
  | Op_Request Handle "json option" xid send_io wait_env
  | Op_Message Handle "json option" "json option" xid send_io "wait_env list"
  | Op_Trickle Handle json xid send_io wait_env
  | Op_TrickleMany Handle json xid send_io wait_env
  | Op_Detach Handle xid send_io wait_env

fun apply_op :: "extern \<Rightarrow> op \<Rightarrow> state \<Rightarrow> state" where
  "apply_op X (Op_recv rd) w = snd (recv_step X rd w)"
| "apply_op X (Op_Info guid io e) w = snd (Info X guid io e w)"
| "apply_op X (Op_Create guid io e) w = snd (Create X guid io e w)"
| "apply_op X (Op_Attach session plugin guid io e) w = snd (Attach X session plugin guid io e w)"
| "apply_op X (Op_KeepAlive session guid io e) w = snd (KeepAlive X session guid io e w)"
| "apply_op X (Op_Destroy session guid io e) w = snd (Destroy X session guid io e w)"
| "apply_op X (Op_Request handle body guid io e) w = snd (Request X handle body guid io e w)"
| "apply_op X (Op_Message handle body jsep guid io es) w =
     snd (Message X handle body jsep guid io es w)"
| "apply_op X (Op_Trickle handle candidate guid io e) w =
     snd (Trickle X handle candidate guid io e w)"
| "apply_op X (Op_TrickleMany handle candidates guid io e) w =
     snd (TrickleMany X handle candidates guid io e w)"
| "apply_op X (Op_Detach handle guid io e) w = snd (Detach X handle guid io e w)"

text \<open>The transaction id that \<^verbatim>\<open>generateTransactionId\<close> gave to a request.\<close>

fun op_guid :: "op \<Rightarrow> xid option" where
  "op_guid (Op_recv rd) = None"
| "op_guid (Op_Info guid io e) = Some guid"
| "op_guid (Op_Create guid io e) = Some guid"
| "op_guid (Op_Attach session plugin guid io e) = Some guid"
| "op_guid (Op_KeepAlive session guid io e) = Some guid"
| "op_guid (Op_Destroy session guid io e) = Some guid"
| "op_guid (Op_Request handle body guid io e) = Some guid"
| "op_guid (Op_Message handle body jsep guid io es) = Some guid"
| "op_guid (Op_Trickle handle candidate guid io e) = Some guid"
| "op_guid (Op_TrickleMany handle candidates guid io e) = Some guid"
| "op_guid (Op_Detach handle guid io e) = Some guid"

fun run :: "extern \<Rightarrow> op list \<Rightarrow> state \<Rightarrow> state" where
  "run X [] w = w"
| "run X (operation # ops) w = run X ops (apply_op X operation w)"

subsection \<open>Observations and sample inputs\<close>

text \<open>
  The hierarchy of a state: the gateway's session map, and the sessions that session
  pointers refer to, each with its handle map.
\<close>

definition hierarchy :: "state \<Rightarrow> (uint64 \<rightharpoonup> sref) \<times> (sref \<rightharpoonup> Session)" where
  "hierarchy w = (Sessions w, heap w)"

text \<open>
  A send that meets no failure, and a \<^verbatim>\<open>select\<close> in which the message \<open>m\<close> is ready on
  the request's channel after five nanoseconds and the context is never done.
\<close>

definition sent_ok :: send_io where
  "sent_ok = \<lparr>marshal_err = None, write_err = None\<rparr>"

definition replies :: "msg \<Rightarrow> wait_env" where
  "replies m = \<lparr>reply_at = Some (5, m), done_at = None, choice = 0\<rparr>"

definition silence :: wait_env where
  "silence = \<lparr>reply_at = None, done_at = None, choice = 0\<rparr>"

text \<open>
  A sample environment: transaction ids are written \<open>t1\<close>, \<open>t2\<close>, \<open>t3\<close> (an unreadable
  id decodes to the zero id), and a few inbound frames are known to the decoder.
\<close>

definition sample_String :: "xid \<Rightarrow> string" where
  "sample_String g =
     (if g = 1 then ''t1'' else if g = 2 then ''t2'' else if g = 3 then ''t3'' else ''t0'')"

definition sample_FromString :: "string \<Rightarrow> xid" where
  "sample_FromString s =
     (if s = ''t1'' then 1 else if s = ''t2'' then 2 else if s = ''t3'' then 3 else 0)"

definition sample_BaseMsg :: "string \<Rightarrow> error + BaseMsg" where
  "sample_BaseMsg d =
     (if d = ''event t3'' \<or> d = ''event t3 again'' then
        Inr \<lparr>Type = ''event'', ID = ''t3'', Session = 7, Handle = 9\<rparr>
      else if d = ''ack t9'' then
        Inr \<lparr>Type = ''ack'', ID = ''t9'', Session = 7, Handle = 9\<rparr>
      else if d = ''event for session 8'' then
        Inr \<lparr>Type = ''event'', ID = [], Session = 8, Handle = 9\<rparr>
      else if d = ''event for handle 5'' then
        Inr \<lparr>Type = ''event'', ID = [], Session = 7, Handle = 5\<rparr>
      else if d = ''event for no handle'' then
        Inr \<lparr>Type = ''event'', ID = [], Session = 7, Handle = 0\<rparr>
      else if d = ''weird'' then
        Inr \<lparr>Type = ''weird'', ID = [], Session = 0, Handle = 0\<rparr>
      else if d = ''event broken'' then
        Inr \<lparr>Type = ''event'', ID = [], Session = 7, Handle = 9\<rparr>
      else Inl (External ''unexpected end of JSON input''))"

definition sample_msgtypes :: "string \<rightharpoonup> msg" where
  "sample_msgtypes =
     [''success'' \<mapsto> SuccessMsg 0, ''error'' \<mapsto> ErrorMsg 0 [], ''ack'' \<mapsto> AckMsg,
      ''event'' \<mapsto> EventMsg [] None, ''server_info'' \<mapsto> InfoMsg []]"

definition sample_Unmarshal :: "msg \<Rightarrow> string \<Rightarrow> error + msg" where
  "sample_Unmarshal blank d =
     (if d = ''event broken'' then Inl (External ''cannot unmarshal string'')
      else Inr (case blank of EventMsg p j \<Rightarrow> EventMsg d None | _ \<Rightarrow> blank))"

definition sample_extern :: extern where
  "sample_extern =
     \<lparr>xid_String = sample_String, xid_FromString = sample_FromString,
      Unmarshal_BaseMsg = sample_BaseMsg, msgtypes = sample_msgtypes,
      Unmarshal_msg = sample_Unmarshal\<rparr>"

text \<open>
  A sample state: after \<^verbatim>\<open>Connect\<close> with a secret, a session 7 was created and a handle 9
  attached to it, and a plugin message was sent on the handle under the transaction
  \<open>t3\<close>, to which no reply has been read yet.
\<close>

definition sample_handle :: Handle where
  "sample_handle =
     \<lparr>Handle_ID = 9, Handle_Type = [], Handle_User = [], Handle_Events = 3,
      Handle_session = 0\<rparr>"

definition sample_session :: Session where
  "sample_session = \<lparr>Session_ID = 7, Handles = [9 \<mapsto> sample_handle], Session_Events = 1\<rparr>"

definition sample_ops :: "op list" where
  "sample_ops =
     [Op_Create 1 sent_ok (replies (SuccessMsg 7)),
      Op_Attach 0 ''janus.plugin.echotest'' 2 sent_ok (replies (SuccessMsg 9)),
      Op_Message sample_handle (Some ''{}'') None 3 sent_ok []]"

definition sample_state :: state where
  "sample_state = run sample_extern sample_ops (Connect ''secret'')"

text \<open>
  A call \<open>yields\<close> a result from the state \<open>w\<close> when it returns that result and leaves
  the hierarchy as it was in \<open>w\<close>.
\<close>

definition yields :: "'a \<times> state \<Rightarrow> 'a \<Rightarrow> state \<Rightarrow> bool" where
  "yields call r w \<longleftrightarrow> fst call = r \<and> hierarchy (snd call) = hierarchy w"


text \<open>
  The session that the receive loop finds for a session id: the pointer stored in
  \<^verbatim>\<open>Sessions\<close>, when it is there and not nil.
\<close>

definition session_lookup :: "state \<Rightarrow> uint64 \<Rightarrow> Session option" where
  "session_lookup w k = (case Sessions w k of None \<Rightarrow> None | Some r \<Rightarrow> heap w r)"

text \<open>
  The state \<open>w\<close> after a turn of the receive loop that did nothing but print: the copy
  of the frame when \<^verbatim>\<open>LogJsonMessages\<close> is set, then the given lines.
\<close>

definition logged :: "state \<Rightarrow> string \<Rightarrow> stdout_line list \<Rightarrow> state" where
  "logged w data lines =
     w\<lparr>stdout := stdout w @ (if LogJsonMessages w then [JsonRx data] else []) @ lines\<rparr>"

text \<open>
  What a request does to the registry and to the channels, whatever its outcome: it starts
  no goroutine; it leaves the registry alone (when it panics before sending) or registers
  its id, unmarked, with the channel it made; and it makes one channel without buffer, and
  after it at most one more, of capacity 2 (\<^verbatim>\<open>Create\<close>) or 8 (\<^verbatim>\<open>Attach\<close>).
\<close>

definition registry_effect :: "xid \<Rightarrow> state \<Rightarrow> state \<Rightarrow> bool" where
  "registry_effect guid w w' \<longleftrightarrow>
     goroutines w' = goroutines w
     \<and> (transactions w' = transactions w \<and> transactionsUsed w' = transactionsUsed w
        \<or> transactions w' = (transactions w)(guid \<mapsto> length (chans w))
          \<and> transactionsUsed w' = (transactionsUsed w)(guid \<mapsto> False))
     \<and> (chans w' = chans w @ [0] \<or> chans w' = chans w @ [0, 2]
        \<or> chans w' = chans w @ [0, 8])"

definition plain_effect :: "xid \<Rightarrow> state \<Rightarrow> state \<Rightarrow> bool" where
  "plain_effect guid w w' \<longleftrightarrow>
     registry_effect guid w w' \<and> chans w' = chans w @ [0] \<and> heap w' = heap w"

text \<open>What \<^verbatim>\<open>Gateway.send\<close> does to the state besides printing and writing.\<close>

definition registered :: "xid \<Rightarrow> chan \<Rightarrow> state \<Rightarrow> state \<Rightarrow> bool" where
  "registered guid ch w0 w1 \<longleftrightarrow>
     chans w1 = chans w0 \<and> transactions w1 = (transactions w0)(guid \<mapsto> ch)
     \<and> transactionsUsed w1 = (transactionsUsed w0)(guid \<mapsto> False)
     \<and> heap w1 = heap w0 \<and> Sessions w1 = Sessions w0 \<and> goroutines w1 = goroutines w0
     \<and> next_sref w1 = next_sref w0"

text \<open>
  Channels are told apart by their capacity: a request's channel has none, the event
  channel of a session has 2, that of a handle has 8. The invariant of a run: every
  registered channel, every event channel of a session or of one of its handles, and every
  channel a \<^verbatim>\<open>passMsg\<close> goroutine sends on has been made, and the goroutines send on no
  channel of capacity 2.
\<close>

definition ok_session :: "nat list \<Rightarrow> Session \<Rightarrow> bool" where
  "ok_session cs s \<longleftrightarrow>
     Session_Events s < length cs \<and> cs ! Session_Events s = 2
     \<and> (\<forall>k h. Handles s k = Some h \<longrightarrow>
           Handle_Events h < length cs \<and> cs ! Handle_Events h = 8)"

definition chan_inv :: "state \<Rightarrow> bool" where
  "chan_inv w \<longleftrightarrow>
     (\<forall>g c. transactions w g = Some c \<longrightarrow> c < length (chans w) \<and> chans w ! c = 0)
     \<and> (\<forall>r s. heap w r = Some s \<longrightarrow> ok_session (chans w) s)
     \<and> (\<forall>c m. (c, m) \<in> set (goroutines w) \<longrightarrow> c < length (chans w) \<and> chans w ! c \<noteq> 2)"

text \<open>
  A request that was sent is \<open>tagged\<close>: it appended one envelope to what was written to
  the connection, the envelope has the generated id in its field \<open>transaction\<close>, has the
  field \<open>apisecret\<close> exactly when the gateway's secret is not empty, then with the secret
  as its value, and the id is registered, unmarked, with the channel the request made.
  The envelope \<open>carries\<close> a number in a field when that field holds it.
\<close>

definition tagged :: "'a \<times> state \<Rightarrow> extern \<Rightarrow> xid \<Rightarrow> state \<Rightarrow> bool" where
  "tagged call X guid w \<longleftrightarrow>
     conn (snd call) = conn w @ [last (conn (snd call))] \<and>
     last (conn (snd call)) ''transaction'' = Some (JString (xid_String X guid)) \<and>
     last (conn (snd call)) ''apisecret'' =
       (if apiSecret w = [] then None else Some (JString (apiSecret w))) \<and>
     transactions (snd call) guid = Some (length (chans w)) \<and>
     transactionsUsed (snd call) guid = Some False"

definition carries :: "'a \<times> state \<Rightarrow> string \<Rightarrow> uint64 \<Rightarrow> bool" where
  "carries call field v \<longleftrightarrow> last (conn (snd call)) field = Some (JUint v)"

text \<open>
  The state after \<^verbatim>\<open>newRequest\<close> and \<^verbatim>\<open>Gateway.send\<close> of an envelope, and the relation of
  a state to a later one in which the connection and the registry are the same.
\<close>

definition request_state :: "extern \<Rightarrow> xid \<Rightarrow> send_io \<Rightarrow> envelope \<Rightarrow> state \<Rightarrow> state" where
  "request_state X guid io env w =
     snd (Gateway_send X guid io env (length (chans w)) (w\<lparr>chans := chans w @ [0]\<rparr>))"

definition same_wire :: "state \<Rightarrow> state \<Rightarrow> bool" where
  "same_wire w1 w' \<longleftrightarrow>
     conn w' = conn w1 \<and> transactions w' = transactions w1
     \<and> transactionsUsed w' = transactionsUsed w1"

section \<open>Properties\<close>

subsection \<open>Auxiliary facts\<close>

lemmas send_defs = newRequest_def make_chan_def Gateway_send_def Session_send_def
  Handle_send_def Let_def

lemmas call_defs = Info_def Create_def Attach_def KeepAlive_def Destroy_def Request_def
  Trickle_def TrickleMany_def Detach_def

lemma select_wait_replies [simp]: "select_wait timeoutDuration (replies m) = Received m"
  by (simp add: select_wait_def select_cases_def replies_def timeoutDuration_def)

lemma select_wait_silence [simp]: "select_wait timeoutDuration silence = TimedOut"
  by (simp add: select_wait_def select_cases_def silence_def timeoutDuration_def)


lemma sent_ok_simps [simp]: "marshal_err sent_ok = None" "write_err sent_ok = None"
  by (simp_all add: sent_ok_def)

lemma sample_state_fields:
  "Sessions sample_state = [7 \<mapsto> 0]"
  "heap sample_state = [0 \<mapsto> sample_session]"
  "transactions sample_state = [1 \<mapsto> 0, 2 \<mapsto> 2, 3 \<mapsto> 4]"
  "transactionsUsed sample_state = [1 \<mapsto> False, 2 \<mapsto> False, 3 \<mapsto> False]"
  "apiSecret sample_state = ''secret''"
  "LogJsonMessages sample_state = False"
  "chans sample_state = [0, 2, 0, 8, 0]"
  "stdout sample_state = []"
  "goroutines sample_state = []"
  "next_sref sample_state = 1"
  by (simp_all add: sample_state_def sample_ops_def Connect_def Create_def Attach_def
      Message_def send_defs sample_extern_def sample_session_def sample_handle_def
      eval_nat_numeral)

lemma sample_handle_fields [simp]:
  "Handle_session sample_handle = 0" "Handle_ID sample_handle = 9"
  "Handle_Events sample_handle = 3"
  by (simp_all add: sample_handle_def)

lemma sample_session_fields [simp]:
  "Session_ID sample_session = 7" "Handles sample_session = [9 \<mapsto> sample_handle]"
  "Session_Events sample_session = 1"
  by (simp_all add: sample_session_def)

lemma sample_sessions [simp]:
  "heap sample_state 0 = Some sample_session"
  "heap sample_state (Handle_session sample_handle) = Some sample_session"
  by (simp_all add: sample_state_fields)

lemma GetMessage_acks:
  "\<forall>a\<in>set acks. select_wait timeoutDuration a = Received AckMsg \<Longrightarrow>
     GetMessage (acks @ es) = GetMessage es"
  by (induction acks) simp_all

lemma GetMessage_only_acks:
  "\<forall>a\<in>set acks. select_wait timeoutDuration a = Received AckMsg \<Longrightarrow>
     GetMessage acks = None"
  by (induction acks) simp_all

lemma Message_sent:
  assumes "marshal_err io = None" and "write_err io = None"
    and "heap w (Handle_session handle) = Some hs"
  shows "fst (Message X handle body jsep guid io es w) = GetMessage es"
    and "Sessions (snd (Message X handle body jsep guid io es w)) = Sessions w"
    and "heap (snd (Message X handle body jsep guid io es w)) = heap w"
  using assms by (simp_all add: Message_def send_defs split: option.splits)

subsection \<open>Plugin messages: acknowledgements are provisional\<close>

text \<open>
  C6. A \<^verbatim>\<open>Message\<close> call whose request was sent, and which then receives on its channel
  any number of \<^verbatim>\<open>AckMsg\<close> replies followed by an \<^verbatim>\<open>EventMsg\<close>, returns that \<^verbatim>\<open>EventMsg\<close>
  and no error, whatever would arrive afterwards. The acknowledgements alone never
  complete the call: after them it is waiting in a further \<^verbatim>\<open>select\<close> on the same channel.
\<close>

theorem Message_returns_event_after_acks:
  assumes "marshal_err io = None" and "write_err io = None"
    and "heap w (Handle_session handle) = Some hs"
    and "\<forall>a\<in>set acks. select_wait timeoutDuration a = Received AckMsg"
    and "select_wait timeoutDuration e = Received (EventMsg p j)"
  shows "fst (Message X handle body jsep guid io (acks @ e # rest) w)
           = Some (Return (Some (EventMsg p j)) None)
       \<and> fst (Message X handle body jsep guid io acks w) = None"
  using assms
  by (simp add: Message_sent GetMessage_acks GetMessage_only_acks)

theorem Message_returns_event_after_acks_witness:
  "fst (Message sample_extern sample_handle (Some ''{}'') None 4 sent_ok
          ([replies AckMsg, replies AckMsg] @ replies (EventMsg ''started'' None) # [silence])
          sample_state)
     = Some (Return (Some (EventMsg ''started'' None)) None)
   \<and> fst (Message sample_extern sample_handle (Some ''{}'') None 4 sent_ok
          [replies AckMsg, replies AckMsg] sample_state) = None"
proof -
  have acks: "\<forall>a\<in>set [replies AckMsg, replies AckMsg].
                select_wait timeoutDuration a = Received AckMsg"
    by simp
  have session: "heap sample_state (Handle_session sample_handle) = Some sample_session"
    by (simp add: sample_state_fields)
  show ?thesis
    using Message_returns_event_after_acks [OF _ _ session acks, of sent_ok
        "replies (EventMsg ''started'' None)" "''started''" None]
    by simp
qed

subsection \<open>Replies of an unexpected kind\<close>

text \<open>
  C1, as it holds. For \<^verbatim>\<open>Info\<close>, \<^verbatim>\<open>KeepAlive\<close>, \<^verbatim>\<open>Request\<close>, \<^verbatim>\<open>Trickle\<close> and
  \<^verbatim>\<open>TrickleMany\<close>, whose request was sent: when the reply received on the call's channel
  is neither of the kind the call returns (\<^verbatim>\<open>InfoMsg\<close>, \<^verbatim>\<open>AckMsg\<close>, \<^verbatim>\<open>SuccessMsg\<close>,
  \<^verbatim>\<open>AckMsg\<close>, \<^verbatim>\<open>AckMsg\<close>) nor an \<^verbatim>\<open>ErrorMsg\<close>, the call returns the error
  \<open>Unexpected response received to '...' request\<close> and leaves the hierarchy unchanged.
  For \<^verbatim>\<open>Message\<close> the same holds for a reply, after any number of acknowledgements, that
  is neither an \<^verbatim>\<open>EventMsg\<close> nor an \<^verbatim>\<open>ErrorMsg\<close> nor an \<^verbatim>\<open>AckMsg\<close>. Nothing is said
  here about \<^verbatim>\<open>Create\<close>, \<^verbatim>\<open>Attach\<close>, \<^verbatim>\<open>Destroy\<close> and \<^verbatim>\<open>Detach\<close>.
\<close>

theorem unexpected_reply_is_an_error:
  assumes "marshal_err io = None" and "write_err io = None"
    and "heap w session = Some s"
    and "heap w (Handle_session handle) = Some hs"
    and "select_wait timeoutDuration e = Received m"
    and "\<forall>c r. m \<noteq> ErrorMsg c r"
    and "\<forall>a\<in>set acks. select_wait timeoutDuration a = Received AckMsg"
  shows "((\<forall>i. m \<noteq> InfoMsg i) \<longrightarrow>
            yields (Info X guid io e w) (Return None (Some (unexpected ''info''))) w)
       \<and> (m \<noteq> AckMsg \<longrightarrow>
            yields (KeepAlive X session guid io e w)
              (Return None (Some (unexpected ''keepalive''))) w)
       \<and> ((\<forall>d. m \<noteq> SuccessMsg d) \<longrightarrow>
            yields (Request X handle body guid io e w)
              (Return None (Some (unexpected ''message''))) w)
       \<and> (m \<noteq> AckMsg \<and> (\<forall>p j. m \<noteq> EventMsg p j) \<longrightarrow>
            yields (Message X handle body jsep guid io (acks @ e # rest) w)
              (Some (Return None (Some (unexpected ''message'')))) w)
       \<and> (m \<noteq> AckMsg \<longrightarrow>
            yields (Trickle X handle candidate guid io e w)
              (Return None (Some (unexpected ''trickle''))) w)
       \<and> (m \<noteq> AckMsg \<longrightarrow>
            yields (TrickleMany X handle candidates guid io e w)
              (Return None (Some (unexpected ''trickle''))) w)"
  using assms
  by (cases m)
     (simp_all add: yields_def call_defs send_defs hierarchy_def Message_sent GetMessage_acks
      split: option.splits)

theorem unexpected_reply_is_an_error_witness:
  "yields (Info sample_extern 4 sent_ok (replies (OtherMsg ''hangup'' ''{}'')) sample_state)
     (Return None (Some (Errorf ''Unexpected response received to 'info' request'')))
     sample_state
   \<and> yields (KeepAlive sample_extern 0 4 sent_ok (replies (OtherMsg ''hangup'' ''{}''))
        sample_state)
     (Return None (Some (Errorf ''Unexpected response received to 'keepalive' request'')))
     sample_state
   \<and> yields (Request sample_extern sample_handle None 4 sent_ok
        (replies (OtherMsg ''hangup'' ''{}'')) sample_state)
     (Return None (Some (Errorf ''Unexpected response received to 'message' request'')))
     sample_state
   \<and> yields (Message sample_extern sample_handle None None 4 sent_ok
        ([replies AckMsg] @ replies (OtherMsg ''hangup'' ''{}'') # []) sample_state)
     (Some (Return None (Some (Errorf ''Unexpected response received to 'message' request''))))
     sample_state
   \<and> yields (Trickle sample_extern sample_handle ''{}'' 4 sent_ok
        (replies (OtherMsg ''hangup'' ''{}'')) sample_state)
     (Return None (Some (Errorf ''Unexpected response received to 'trickle' request'')))
     sample_state
   \<and> yields (TrickleMany sample_extern sample_handle ''[]'' 4 sent_ok
        (replies (OtherMsg ''hangup'' ''{}'')) sample_state)
     (Return None (Some (Errorf ''Unexpected response received to 'trickle' request'')))
     sample_state"
proof -
  have no_error: "\<forall>c r. OtherMsg ''hangup'' ''{}'' \<noteq> ErrorMsg c r"
    and acks: "\<forall>a\<in>set [replies AckMsg]. select_wait timeoutDuration a = Received AckMsg"
    by simp_all
  show ?thesis
    using unexpected_reply_is_an_error [OF sent_ok_simps sample_sessions select_wait_replies
        no_error acks, where X = sample_extern and guid = 4 and body = None and jsep = None
        and rest = "[]" and candidate = "''{}''" and candidates = "''[]''"]
    by (simp add: unexpected_def quoted_def)
qed

text \<open>
  C1 as stated fails. \<^verbatim>\<open>Message\<close> answered by an \<^verbatim>\<open>AckMsg\<close>, which is neither the
  \<^verbatim>\<open>EventMsg\<close> it returns nor an \<^verbatim>\<open>ErrorMsg\<close>, waits again and returns the event that
  follows. \<^verbatim>\<open>Destroy\<close> on the sample session, answered by a \<^verbatim>\<open>SuccessMsg\<close>, returns
  neither a message nor an error and deletes the session from \<^verbatim>\<open>Sessions\<close>, and
  \<^verbatim>\<open>Detach\<close> likewise deletes the handle; \<^verbatim>\<open>Create\<close> and \<^verbatim>\<open>Attach\<close> answered by an
  \<^verbatim>\<open>AckMsg\<close> panic.
\<close>

theorem unexpected_reply_counterexample:
  "fst (Message sample_extern sample_handle (Some ''{}'') None 4 sent_ok
          [replies AckMsg, replies (EventMsg ''started'' None)] sample_state)
     = Some (Return (Some (EventMsg ''started'' None)) None)
   \<and> Sessions sample_state 7 = Some 0
   \<and> fst (Destroy sample_extern 0 4 sent_ok (replies (SuccessMsg 0)) sample_state)
       = Return None None
   \<and> Sessions (snd (Destroy sample_extern 0 4 sent_ok (replies (SuccessMsg 0)) sample_state)) 7
       = None
   \<and> heap sample_state 0 = Some sample_session
   \<and> Handles sample_session 9 = Some sample_handle
   \<and> fst (Detach sample_extern sample_handle 4 sent_ok (replies (SuccessMsg 0)) sample_state)
       = Return None None
   \<and> heap (snd (Detach sample_extern sample_handle 4 sent_ok (replies (SuccessMsg 0))
        sample_state)) 0
       = Some (sample_session\<lparr>Handles := Map.empty\<rparr>)
   \<and> fst (Create sample_extern 4 sent_ok (replies AckMsg) sample_state) = Panic nil_dereference
   \<and> fst (Attach sample_extern 0 ''janus.plugin.echotest'' 4 sent_ok (replies AckMsg)
        sample_state) = Panic nil_dereference"
  by (simp add: Destroy_def Detach_def Create_def Attach_def Message_def send_defs
      sample_state_fields)

subsection \<open>Replies that confirm: the hierarchy changes once, after the reply\<close>

text \<open>
  C4. Of a request that was sent and is answered by its success reply: \<^verbatim>\<open>Create\<close>
  answered by a \<^verbatim>\<open>SuccessMsg\<close> with id \<open>d\<close> returns a new session and maps \<open>d\<close> to it in
  \<^verbatim>\<open>Sessions\<close>, the session having the id \<open>d\<close> and no handles; \<^verbatim>\<open>Attach\<close> returns a handle
  with id \<open>d\<close> and maps \<open>d\<close> to it in the \<^verbatim>\<open>Handles\<close> of its session; \<^verbatim>\<open>Destroy\<close>
  answered by an \<^verbatim>\<open>AckMsg\<close> deletes the entry of the session's id from \<^verbatim>\<open>Sessions\<close>, and
  \<^verbatim>\<open>Detach\<close> the entry of the handle's id from the \<^verbatim>\<open>Handles\<close> of its session. In each
  case this one update is the whole change of the hierarchy, and it is made after the
  reply: the same call, when no reply arrives, leaves the hierarchy as it was.
\<close>

theorem success_reply_updates_hierarchy_once:
  assumes "marshal_err io = None" and "write_err io = None"
    and "heap w session = Some s"
    and "heap w (Handle_session handle) = Some hs"
    and "select_wait timeoutDuration e = Received (SuccessMsg d)"
    and "select_wait timeoutDuration eack = Received AckMsg"
    and "select_wait timeoutDuration quiet = TimedOut"
  shows "fst (Create X guid io e w) = Return (Some (next_sref w)) None
       \<and> hierarchy (snd (Create X guid io e w)) =
           ((Sessions w)(d \<mapsto> next_sref w),
            (heap w)(next_sref w \<mapsto>
               \<lparr>Session_ID = d, Handles = Map.empty,
                Session_Events = Suc (length (chans w))\<rparr>))
       \<and> hierarchy (snd (Create X guid io quiet w)) = hierarchy w
       \<and> fst (Attach X session plugin guid io e w) =
           Return (Some \<lparr>Handle_ID = d, Handle_Type = [], Handle_User = [],
                         Handle_Events = Suc (length (chans w)),
                         Handle_session = session\<rparr>) None
       \<and> hierarchy (snd (Attach X session plugin guid io e w)) =
           (Sessions w,
            (heap w)(session \<mapsto> s\<lparr>Handles := (Handles s)(d \<mapsto>
               \<lparr>Handle_ID = d, Handle_Type = [], Handle_User = [],
                Handle_Events = Suc (length (chans w)), Handle_session = session\<rparr>)\<rparr>))
       \<and> hierarchy (snd (Attach X session plugin guid io quiet w)) = hierarchy w
       \<and> fst (Destroy X session guid io eack w) = Return (Some AckMsg) None
       \<and> hierarchy (snd (Destroy X session guid io eack w)) =
           ((Sessions w)(Session_ID s := None), heap w)
       \<and> hierarchy (snd (Destroy X session guid io quiet w)) = hierarchy w
       \<and> fst (Detach X handle guid io eack w) = Return (Some AckMsg) None
       \<and> hierarchy (snd (Detach X handle guid io eack w)) =
           (Sessions w,
            (heap w)(Handle_session handle \<mapsto>
               hs\<lparr>Handles := (Handles hs)(Handle_ID handle := None)\<rparr>))
       \<and> hierarchy (snd (Detach X handle guid io quiet w)) = hierarchy w"
  using assms
  by (simp add: call_defs send_defs hierarchy_def split: option.splits)

theorem success_reply_updates_hierarchy_once_witness:
  "Sessions (snd (Create sample_extern 4 sent_ok (replies (SuccessMsg 11)) sample_state))
     = [7 \<mapsto> 0, 11 \<mapsto> 1]
   \<and> Sessions (snd (Create sample_extern 4 sent_ok silence sample_state)) = [7 \<mapsto> 0]
   \<and> heap (snd (Attach sample_extern 0 ''janus.plugin.echotest'' 4 sent_ok
        (replies (SuccessMsg 11)) sample_state))
     = [0 \<mapsto> sample_session\<lparr>Handles := [9 \<mapsto> sample_handle, 11 \<mapsto>
          \<lparr>Handle_ID = 11, Handle_Type = [], Handle_User = [], Handle_Events = 6,
           Handle_session = 0\<rparr>]\<rparr>]
   \<and> Sessions (snd (Destroy sample_extern 0 4 sent_ok (replies AckMsg) sample_state)) = Map.empty
   \<and> Sessions (snd (Destroy sample_extern 0 4 sent_ok silence sample_state)) = [7 \<mapsto> 0]
   \<and> heap (snd (Detach sample_extern sample_handle 4 sent_ok (replies AckMsg) sample_state))
     = [0 \<mapsto> sample_session\<lparr>Handles := Map.empty\<rparr>]
   \<and> heap (snd (Detach sample_extern sample_handle 4 sent_ok silence sample_state))
     = [0 \<mapsto> sample_session]"
  using success_reply_updates_hierarchy_once [OF sent_ok_simps sample_sessions
      select_wait_replies select_wait_replies select_wait_silence,
      where X = sample_extern and guid = 4 and d = 11 and plugin = "''janus.plugin.echotest''"]
  by (simp add: hierarchy_def sample_state_fields eval_nat_numeral)

subsection \<open>Error replies\<close>

text \<open>
  C5. Every request that was sent and receives an \<^verbatim>\<open>ErrorMsg\<close> (for \<^verbatim>\<open>Message\<close>, after any
  number of acknowledgements) returns no result and, as its error, that reply with the
  server's code and reason, and leaves the hierarchy unchanged: after such a \<^verbatim>\<open>Destroy\<close>
  the session map is what it was, after such a \<^verbatim>\<open>Detach\<close> the handle map is.
\<close>

theorem error_reply_is_returned_hierarchy_unchanged:
  assumes "marshal_err io = None" and "write_err io = None"
    and "heap w session = Some s"
    and "heap w (Handle_session handle) = Some hs"
    and "select_wait timeoutDuration e = Received (ErrorMsg c r)"
    and "\<forall>a\<in>set acks. select_wait timeoutDuration a = Received AckMsg"
  shows "yields (Info X guid io e w) (Return None (Some (ReplyError c r))) w
       \<and> yields (Create X guid io e w) (Return None (Some (ReplyError c r))) w
       \<and> yields (Attach X session plugin guid io e w) (Return None (Some (ReplyError c r))) w
       \<and> yields (KeepAlive X session guid io e w) (Return None (Some (ReplyError c r))) w
       \<and> yields (Destroy X session guid io e w) (Return None (Some (ReplyError c r))) w
       \<and> yields (Request X handle body guid io e w) (Return None (Some (ReplyError c r))) w
       \<and> yields (Message X handle body jsep guid io (acks @ e # rest) w)
            (Some (Return None (Some (ReplyError c r)))) w
       \<and> yields (Trickle X handle candidate guid io e w) (Return None (Some (ReplyError c r))) w
       \<and> yields (TrickleMany X handle candidates guid io e w)
            (Return None (Some (ReplyError c r))) w
       \<and> yields (Detach X handle guid io e w) (Return None (Some (ReplyError c r))) w"
  using assms
  by (simp add: yields_def call_defs send_defs hierarchy_def Message_sent GetMessage_acks
      split: option.splits)

theorem error_reply_is_returned_hierarchy_unchanged_witness:
  "fst (Destroy sample_extern 0 4 sent_ok (replies (ErrorMsg 458 ''No such session''))
          sample_state)
     = Return None (Some (ReplyError 458 ''No such session''))
   \<and> Sessions (snd (Destroy sample_extern 0 4 sent_ok
         (replies (ErrorMsg 458 ''No such session'')) sample_state)) 7 = Some 0
   \<and> fst (Detach sample_extern sample_handle 4 sent_ok
         (replies (ErrorMsg 458 ''No such session'')) sample_state)
     = Return None (Some (ReplyError 458 ''No such session''))
   \<and> heap (snd (Detach sample_extern sample_handle 4 sent_ok
         (replies (ErrorMsg 458 ''No such session'')) sample_state)) 0 = Some sample_session
   \<and> fst (Message sample_extern sample_handle None None 4 sent_ok
         ([replies AckMsg] @ replies (ErrorMsg 458 ''No such session'') # []) sample_state)
     = Some (Return None (Some (ReplyError 458 ''No such session'')))"
proof -
  have acks: "\<forall>a\<in>set [replies AckMsg]. select_wait timeoutDuration a = Received AckMsg"
    by simp
  show ?thesis
    using error_reply_is_returned_hierarchy_unchanged [OF sent_ok_simps sample_sessions
        select_wait_replies acks, where X = sample_extern and guid = 4
        and c = 458 and r = "''No such session''" and plugin = "[]" and body = None
        and jsep = None and rest = "[]" and candidate = "[]" and candidates = "[]"]
    by (simp add: yields_def hierarchy_def sample_state_fields)
qed

subsection \<open>Timeouts\<close>



subsection \<open>The receive loop: auxiliary facts\<close>

lemma logged_fields [simp]:
  "Sessions (logged w data ls) = Sessions w"
  "heap (logged w data ls) = heap w"
  "transactions (logged w data ls) = transactions w"
  "transactionsUsed (logged w data ls) = transactionsUsed w"
  "goroutines (logged w data ls) = goroutines w"
  "chans (logged w data ls) = chans w"
  "conn (logged w data ls) = conn w"
  "session_lookup (logged w data ls) k = session_lookup w k"
  by (simp_all add: logged_def session_lookup_def split: option.splits)

lemma logged_more:
  "(logged w data [])\<lparr>stdout := stdout (logged w data []) @ ls\<rparr> = logged w data ls"
  by (simp add: logged_def)

lemma recv_stops:
  "fst (recv_step X rd w) = Some err \<Longrightarrow> fst (recv X (rd # rds) w) = Some err"
  by (cases "recv_step X rd w") auto

lemma recv_step_decoded:
  assumes "Unmarshal_BaseMsg X data = Inr base"
    and "msgtypes X (Type base) = Some blank"
    and "Unmarshal_msg X blank data = Inr m"
  shows "recv_step X (Inr data) w = route X base m (logged w data [])"
  using assms by (simp add: recv_step_def logged_def)

lemma route_null_transaction:
  assumes "ID base \<noteq> []"
    and "\<not> used (transactionsUsed w) (xid_FromString X (ID base))"
    and "transactions w (xid_FromString X (ID base)) = None"
  shows "fst (route X base m w) = Some (Errorf ''null transaction'')"
  using assms by (simp add: route_def Let_def)

lemma route_reply:
  assumes "ID base \<noteq> []"
    and "\<not> used (transactionsUsed w) (xid_FromString X (ID base))"
    and "transactions w (xid_FromString X (ID base)) = Some ch"
  shows "route X base m w =
     (None, (case m of
               EventMsg p j \<Rightarrow>
                 w\<lparr>transactionsUsed :=
                     (transactionsUsed w)(xid_FromString X (ID base) \<mapsto> True)\<rparr>
             | _ \<Rightarrow> w)\<lparr>goroutines := goroutines w @ [(ch, m)]\<rparr>)"
  using assms by (cases m) (simp_all add: route_def Let_def)

lemma route_push:
  assumes "ID base = [] \<or> used (transactionsUsed w) (xid_FromString X (ID base))"
  shows "route X base m w =
     (if Handle base = 0 then (None, w)
      else case session_lookup w (Session base) of
             None \<Rightarrow>
               (None, w\<lparr>stdout := stdout w @
                  [Printf (''Unable to deliver message. Session gone?'' @ newline)]\<rparr>)
           | Some session \<Rightarrow>
               (case Handles session (Handle base) of
                  None \<Rightarrow>
                    (None, w\<lparr>stdout := stdout w @
                       [Printf (''Unable to deliver message. Handle gone?'' @ newline)]\<rparr>)
                | Some handle \<Rightarrow>
                    (None, w\<lparr>goroutines := goroutines w @ [(Handle_Events handle, m)]\<rparr>)))"
  using assms by (auto simp add: route_def session_lookup_def Let_def)

lemma sample_extern_fields [simp]:
  "xid_String sample_extern = sample_String"
  "xid_FromString sample_extern = sample_FromString"
  "Unmarshal_BaseMsg sample_extern = sample_BaseMsg"
  "msgtypes sample_extern = sample_msgtypes"
  "Unmarshal_msg sample_extern = sample_Unmarshal"
  by (simp_all add: sample_extern_def)

subsection \<open>The receive loop: decoding\<close>

text \<open>
  C8. In the receive loop, when the common envelope of a frame cannot be decoded the loop
  returns that error and reads no further; when the type tag is not in the table the loop
  prints a line and goes on with the next frame, the state otherwise as it was; when the
  tag is known and the frame cannot be decoded into that type the loop prints the error,
  returns it and reads no further.
\<close>

theorem recv_decode_failures:
  "(Unmarshal_BaseMsg X data = Inl err \<longrightarrow> recv X (Inr data # rds) w = (Some err, w))
   \<and> (Unmarshal_BaseMsg X data = Inr base \<and> msgtypes X (Type base) = None \<longrightarrow>
        recv X (Inr data # rds) w =
          recv X rds (logged w data [Printf (''Unknown message type received!'' @ newline)]))
   \<and> (Unmarshal_BaseMsg X data = Inr base \<and> msgtypes X (Type base) = Some blank
        \<and> Unmarshal_msg X blank data = Inl err \<longrightarrow>
        recv X (Inr data # rds) w =
          (Some err, logged w data [Printf_error (''json.Unmarshal: %s'' @ newline) err]))"
  by (simp add: recv_step_def logged_def)

theorem recv_decode_failures_witness:
  "recv sample_extern [Inr ''{'', Inr ''weird''] sample_state
     = (Some (External ''unexpected end of JSON input''), sample_state)
   \<and> recv sample_extern [Inr ''weird'', Inr ''{''] sample_state
     = (Some (External ''unexpected end of JSON input''),
        logged sample_state ''weird'' [Printf (''Unknown message type received!'' @ newline)])
   \<and> recv sample_extern [Inr ''event broken'', Inr ''weird''] sample_state
     = (Some (External ''cannot unmarshal string''),
        logged sample_state ''event broken''
          [Printf_error (''json.Unmarshal: %s'' @ newline)
             (External ''cannot unmarshal string'')])"
proof -
  have bad: "Unmarshal_BaseMsg sample_extern ''{'' = Inl (External ''unexpected end of JSON input'')"
    by (simp add: sample_BaseMsg_def)
  have weird: "Unmarshal_BaseMsg sample_extern ''weird''
                 = Inr \<lparr>Type = ''weird'', ID = [], Session = 0, Handle = 0\<rparr>
               \<and> msgtypes sample_extern
                   (Type \<lparr>Type = ''weird'', ID = [], Session = 0, Handle = 0\<rparr>) = None"
    by (simp add: sample_BaseMsg_def sample_msgtypes_def)
  have broken: "Unmarshal_BaseMsg sample_extern ''event broken''
                  = Inr \<lparr>Type = ''event'', ID = [], Session = 7, Handle = 9\<rparr>
                \<and> msgtypes sample_extern
                    (Type \<lparr>Type = ''event'', ID = [], Session = 7, Handle = 9\<rparr>)
                  = Some (EventMsg [] None)
                \<and> Unmarshal_msg sample_extern (EventMsg [] None) ''event broken''
                  = Inl (External ''cannot unmarshal string'')"
    by (simp add: sample_BaseMsg_def sample_msgtypes_def sample_Unmarshal_def)
  show ?thesis
    using recv_decode_failures [where X = sample_extern and data = "''{''"
        and err = "External ''unexpected end of JSON input''" and rds = "[Inr ''weird'']"
        and w = sample_state and base = "\<lparr>Type = [], ID = [], Session = 0, Handle = 0\<rparr>"
        and blank = AckMsg]
      recv_decode_failures [where X = sample_extern and data = "''weird''"
        and base = "\<lparr>Type = ''weird'', ID = [], Session = 0, Handle = 0\<rparr>"
        and rds = "[Inr ''{'']" and w = sample_state and blank = AckMsg
        and err = "External []"]
      recv_decode_failures [where X = sample_extern and data = "''{''"
        and err = "External ''unexpected end of JSON input''" and rds = "[]"
        and w = "logged sample_state ''weird''
                   [Printf (''Unknown message type received!'' @ newline)]"
        and base = "\<lparr>Type = [], ID = [], Session = 0, Handle = 0\<rparr>" and blank = AckMsg]
      recv_decode_failures [where X = sample_extern and data = "''event broken''"
        and base = "\<lparr>Type = ''event'', ID = [], Session = 7, Handle = 9\<rparr>"
        and blank = "EventMsg [] None" and err = "External ''cannot unmarshal string''"
        and rds = "[Inr ''weird'']" and w = sample_state]
      bad weird broken
    by simp
qed

subsection \<open>The receive loop: missing transactions, sessions and handles\<close>

text \<open>
  C3. Of a frame that the receive loop has decoded. When it carries a transaction id that
  is not marked as used and no transaction is registered under that id, the loop returns
  the error \<open>null transaction\<close> and reads no further. When it is a push (no transaction
  id, or one marked as used) to a handle id other than zero, and the session id names no
  session, or the session has no handle of that id, the loop prints a line, starts no
  delivery, leaves the state otherwise as it was and goes on with the next frame.
\<close>

theorem recv_missing_transaction_is_fatal_missing_target_is_not:
  assumes "Unmarshal_BaseMsg X data = Inr base"
    and "msgtypes X (Type base) = Some blank"
    and "Unmarshal_msg X blank data = Inr m"
  shows "(ID base \<noteq> [] \<and> \<not> used (transactionsUsed w) (xid_FromString X (ID base))
          \<and> transactions w (xid_FromString X (ID base)) = None \<longrightarrow>
            fst (recv X (Inr data # rds) w) = Some (Errorf ''null transaction''))
       \<and> ((ID base = [] \<or> used (transactionsUsed w) (xid_FromString X (ID base)))
          \<and> Handle base \<noteq> 0 \<and> session_lookup w (Session base) = None \<longrightarrow>
            recv X (Inr data # rds) w =
              recv X rds (logged w data
                [Printf (''Unable to deliver message. Session gone?'' @ newline)]))
       \<and> ((ID base = [] \<or> used (transactionsUsed w) (xid_FromString X (ID base)))
          \<and> Handle base \<noteq> 0 \<and> session_lookup w (Session base) = Some s
          \<and> Handles s (Handle base) = None \<longrightarrow>
            recv X (Inr data # rds) w =
              recv X rds (logged w data
                [Printf (''Unable to deliver message. Handle gone?'' @ newline)]))"
proof (intro conjI impI)
  assume "ID base \<noteq> [] \<and> \<not> used (transactionsUsed w) (xid_FromString X (ID base))
          \<and> transactions w (xid_FromString X (ID base)) = None"
  then have "fst (route X base m (logged w data [])) = Some (Errorf ''null transaction'')"
    by (intro route_null_transaction) simp_all
  then show "fst (recv X (Inr data # rds) w) = Some (Errorf ''null transaction'')"
    by (intro recv_stops) (simp add: recv_step_decoded [OF assms])
next
  assume a: "(ID base = [] \<or> used (transactionsUsed w) (xid_FromString X (ID base)))
          \<and> Handle base \<noteq> 0 \<and> session_lookup w (Session base) = None"
  then have "ID base = []
      \<or> used (transactionsUsed (logged w data [])) (xid_FromString X (ID base))"
    by simp
  from route_push [OF this] a
  show "recv X (Inr data # rds) w =
          recv X rds (logged w data
            [Printf (''Unable to deliver message. Session gone?'' @ newline)])"
    by (simp add: recv_step_decoded [OF assms] logged_more)
next
  assume a: "(ID base = [] \<or> used (transactionsUsed w) (xid_FromString X (ID base)))
          \<and> Handle base \<noteq> 0 \<and> session_lookup w (Session base) = Some s
          \<and> Handles s (Handle base) = None"
  then have "ID base = []
      \<or> used (transactionsUsed (logged w data [])) (xid_FromString X (ID base))"
    by simp
  from route_push [OF this] a
  show "recv X (Inr data # rds) w =
          recv X rds (logged w data
            [Printf (''Unable to deliver message. Handle gone?'' @ newline)])"
    by (simp add: recv_step_decoded [OF assms] logged_more)
qed

theorem recv_missing_transaction_is_fatal_missing_target_is_not_witness:
  "fst (recv sample_extern [Inr ''ack t9'', Inr ''weird''] sample_state)
     = Some (Errorf ''null transaction'')
   \<and> recv sample_extern [Inr ''event for session 8''] sample_state
     = (None, logged sample_state ''event for session 8''
          [Printf (''Unable to deliver message. Session gone?'' @ newline)])
   \<and> recv sample_extern [Inr ''event for handle 5''] sample_state
     = (None, logged sample_state ''event for handle 5''
          [Printf (''Unable to deliver message. Handle gone?'' @ newline)])"
proof -
  have ack: "Unmarshal_BaseMsg sample_extern ''ack t9''
               = Inr \<lparr>Type = ''ack'', ID = ''t9'', Session = 7, Handle = 9\<rparr>"
    "msgtypes sample_extern (Type \<lparr>Type = ''ack'', ID = ''t9'', Session = 7, Handle = 9\<rparr>)
       = Some AckMsg"
    "Unmarshal_msg sample_extern AckMsg ''ack t9'' = Inr AckMsg"
    by (simp_all add: sample_BaseMsg_def sample_msgtypes_def sample_Unmarshal_def)
  have s8: "Unmarshal_BaseMsg sample_extern ''event for session 8''
               = Inr \<lparr>Type = ''event'', ID = [], Session = 8, Handle = 9\<rparr>"
    "msgtypes sample_extern (Type \<lparr>Type = ''event'', ID = [], Session = 8, Handle = 9\<rparr>)
       = Some (EventMsg [] None)"
    "Unmarshal_msg sample_extern (EventMsg [] None) ''event for session 8''
       = Inr (EventMsg ''event for session 8'' None)"
    by (simp_all add: sample_BaseMsg_def sample_msgtypes_def sample_Unmarshal_def)
  have h5: "Unmarshal_BaseMsg sample_extern ''event for handle 5''
               = Inr \<lparr>Type = ''event'', ID = [], Session = 7, Handle = 5\<rparr>"
    "msgtypes sample_extern (Type \<lparr>Type = ''event'', ID = [], Session = 7, Handle = 5\<rparr>)
       = Some (EventMsg [] None)"
    "Unmarshal_msg sample_extern (EventMsg [] None) ''event for handle 5''
       = Inr (EventMsg ''event for handle 5'' None)"
    by (simp_all add: sample_BaseMsg_def sample_msgtypes_def sample_Unmarshal_def)
  show ?thesis
    using recv_missing_transaction_is_fatal_missing_target_is_not [OF ack,
        where w = sample_state and rds = "[Inr ''weird'']" and s = sample_session]
      recv_missing_transaction_is_fatal_missing_target_is_not [OF s8,
        where w = sample_state and rds = "[]" and s = sample_session]
      recv_missing_transaction_is_fatal_missing_target_is_not [OF h5,
        where w = sample_state and rds = "[]" and s = sample_session]
    by (simp add: sample_FromString_def used_def session_lookup_def sample_state_fields)
qed

subsection \<open>What a request does to the registry and the channels\<close>

lemma Gateway_send_registered:
  "Gateway_send X guid io msg ch w0 = (err, w1) \<Longrightarrow> registered guid ch w0 w1"
  by (auto simp add: Gateway_send_def registered_def Let_def split: option.splits if_splits)

lemma Session_send_registered:
  "Session_send X session guid io msg ch w0 = Inr (err, w1) \<Longrightarrow>
     registered guid ch w0 w1 \<and> (\<exists>s. heap w0 session = Some s)"
  by (auto simp add: Session_send_def split: option.splits dest: Gateway_send_registered)

lemma Handle_send_registered:
  "Handle_send X handle guid io msg ch w0 = Inr (err, w1) \<Longrightarrow>
     registered guid ch w0 w1 \<and> (\<exists>s. heap w0 (Handle_session handle) = Some s)"
  by (auto simp add: Handle_send_def dest: Session_send_registered)

lemmas effect_simps = plain_effect_def registry_effect_def newRequest_def make_chan_def
  Let_def registered_def

lemma effect_Info: "plain_effect guid w (snd (Info X guid io e w))"
  by (auto simp add: effect_simps Info_def
      split: prod.splits option.splits select_outcome.splits msg.splits
      dest!: Gateway_send_registered)

lemma effect_KeepAlive: "plain_effect guid w (snd (KeepAlive X session guid io e w))"
  by (auto simp add: effect_simps KeepAlive_def
      split: prod.splits sum.splits option.splits select_outcome.splits msg.splits
      dest!: Session_send_registered)

lemma effect_Destroy: "plain_effect guid w (snd (Destroy X session guid io e w))"
  by (auto simp add: effect_simps Destroy_def
      split: prod.splits sum.splits option.splits select_outcome.splits msg.splits
      dest!: Session_send_registered)

lemma effect_Request: "plain_effect guid w (snd (Request X handle body guid io e w))"
  by (auto simp add: effect_simps Request_def
      split: prod.splits sum.splits option.splits select_outcome.splits msg.splits
      dest!: Handle_send_registered)

lemma effect_Message: "plain_effect guid w (snd (Message X handle body jsep guid io es w))"
  by (auto simp add: effect_simps Message_def
      split: prod.splits sum.splits option.splits
      dest!: Handle_send_registered)

lemma effect_Trickle: "plain_effect guid w (snd (Trickle X handle candidate guid io e w))"
  by (auto simp add: effect_simps Trickle_def
      split: prod.splits sum.splits option.splits select_outcome.splits msg.splits
      dest!: Handle_send_registered)

lemma effect_TrickleMany:
  "plain_effect guid w (snd (TrickleMany X handle candidates guid io e w))"
  by (auto simp add: effect_simps TrickleMany_def
      split: prod.splits sum.splits option.splits select_outcome.splits msg.splits
      dest!: Handle_send_registered)

lemma effect_Create: "registry_effect guid w (snd (Create X guid io e w))"
  by (auto simp add: effect_simps Create_def
      split: prod.splits option.splits select_outcome.splits msg.splits
      dest!: Gateway_send_registered)

lemma effect_Attach: "registry_effect guid w (snd (Attach X session plugin guid io e w))"
  by (auto simp add: effect_simps Attach_def
      split: prod.splits sum.splits option.splits select_outcome.splits msg.splits
      dest!: Session_send_registered)

lemma effect_Detach: "registry_effect guid w (snd (Detach X handle guid io e w))"
  by (auto simp add: effect_simps Detach_def
      split: prod.splits sum.splits option.splits select_outcome.splits msg.splits
      dest!: Handle_send_registered)

lemma ok_session_append: "ok_session cs s \<Longrightarrow> ok_session (cs @ ext) s"
  unfolding ok_session_def by (simp add: nth_append) (meson trans_less_add1)

lemma ok_session_new:
  "ok_session (cs @ [0, 2])
     \<lparr>Session_ID = d, Handles = Map.empty, Session_Events = Suc (length cs)\<rparr>"
  by (simp add: ok_session_def nth_append)

lemma ok_session_attach:
  "ok_session cs s \<Longrightarrow> Handle_Events h = Suc (length cs) \<Longrightarrow>
     ok_session (cs @ [0, 8]) (s\<lparr>Handles := (Handles s)(k \<mapsto> h)\<rparr>)"
  unfolding ok_session_def by (simp add: nth_append) (meson less_SucI)

lemma ok_session_detach:
  "ok_session cs s \<Longrightarrow> ok_session (cs @ ext) (s\<lparr>Handles := (Handles s)(k := None)\<rparr>)"
  unfolding ok_session_def by (simp add: nth_append) (meson trans_less_add1)

lemma heap_Create:
  assumes "\<forall>r s. heap w r = Some s \<longrightarrow> ok_session (chans w) s"
    and "heap (snd (Create X guid io e w)) r = Some s"
  shows "ok_session (chans (snd (Create X guid io e w))) s"
  using assms
  by (auto simp add: newRequest_def make_chan_def Let_def registered_def Create_def
      ok_session_append ok_session_new
      split: prod.splits option.splits select_outcome.splits msg.splits if_splits
      dest!: Gateway_send_registered)

lemma heap_Attach:
  assumes "\<forall>r s. heap w r = Some s \<longrightarrow> ok_session (chans w) s"
    and "heap (snd (Attach X session plugin guid io e w)) r = Some s"
  shows "ok_session (chans (snd (Attach X session plugin guid io e w))) s"
  using assms
  by (auto simp add: newRequest_def make_chan_def Let_def registered_def Attach_def
      ok_session_append ok_session_attach
      split: prod.splits sum.splits option.splits select_outcome.splits msg.splits if_splits
      dest!: Session_send_registered)

lemma heap_Detach:
  assumes "\<forall>r s. heap w r = Some s \<longrightarrow> ok_session (chans w) s"
    and "heap (snd (Detach X handle guid io e w)) r = Some s"
  shows "ok_session (chans (snd (Detach X handle guid io e w))) s"
  using assms
  by (auto simp add: newRequest_def make_chan_def Let_def registered_def Detach_def
      ok_session_append ok_session_detach
      split: prod.splits sum.splits option.splits select_outcome.splits msg.splits if_splits
      dest!: Handle_send_registered)

subsection \<open>Invariants of a run\<close>

lemma inv_from_effect:
  assumes "chan_inv w" and "registry_effect guid w w'"
    and "\<forall>r s. heap w' r = Some s \<longrightarrow> ok_session (chans w') s"
  shows "chan_inv w'"
proof -
  obtain ext where ext: "chans w' = chans w @ 0 # ext"
    using assms(2) by (auto simp add: registry_effect_def)
  have tx: "transactions w' g = Some c \<Longrightarrow> c < length (chans w') \<and> chans w' ! c = 0" for g c
    using assms(1,2) ext
    by (auto simp add: registry_effect_def chan_inv_def nth_append split: if_splits)
  have go: "(c, m) \<in> set (goroutines w') \<Longrightarrow> c < length (chans w') \<and> chans w' ! c \<noteq> 2"
    for c m
    using assms(1,2) ext
    by (auto simp add: registry_effect_def chan_inv_def nth_append)
  show ?thesis
    unfolding chan_inv_def using tx go assms(3) by blast
qed

lemma inv_plain:
  assumes "chan_inv w" and "plain_effect guid w w'"
  shows "chan_inv w'"
proof (rule inv_from_effect [OF assms(1)])
  show "registry_effect guid w w'"
    using assms(2) by (simp add: plain_effect_def)
  show "\<forall>r s. heap w' r = Some s \<longrightarrow> ok_session (chans w') s"
    using assms by (auto simp add: plain_effect_def chan_inv_def ok_session_append)
qed

lemma inv_logged [simp]: "chan_inv (logged w data ls) = chan_inv w"
  by (simp add: chan_inv_def)

lemma inv_stdout [simp]: "chan_inv (w\<lparr>stdout := x\<rparr>) = chan_inv w"
  by (simp add: chan_inv_def)

lemma inv_used [simp]: "chan_inv (w\<lparr>transactionsUsed := x\<rparr>) = chan_inv w"
  by (simp add: chan_inv_def)

lemma inv_deliver:
  assumes "chan_inv w" and "c < length (chans w)" and "chans w ! c \<noteq> 2"
  shows "chan_inv (w\<lparr>goroutines := goroutines w @ [(c, m)]\<rparr>)"
  using assms by (auto simp add: chan_inv_def)

lemma inv_route:
  assumes "chan_inv w"
  shows "chan_inv (snd (route X base m w))"
proof (cases "ID base = [] \<or> used (transactionsUsed w) (xid_FromString X (ID base))")
  case True
  have h: "session_lookup w k = Some s \<Longrightarrow> Handles s kh = Some h \<Longrightarrow>
        Handle_Events h < length (chans w) \<and> chans w ! Handle_Events h \<noteq> 2" for k s kh h
    using assms
    by (auto simp add: session_lookup_def chan_inv_def ok_session_def split: option.splits)
  show ?thesis
    using assms h
    by (auto simp add: route_push [OF True] inv_deliver split: option.splits)
next
  case False
  then have f: "ID base \<noteq> []" "\<not> used (transactionsUsed w) (xid_FromString X (ID base))"
    by simp_all
  show ?thesis
  proof (cases "transactions w (xid_FromString X (ID base))")
    case None
    then show ?thesis
      using assms f by (cases m) (simp_all add: route_def Let_def)
  next
    case (Some ch)
    then have "ch < length (chans w) \<and> chans w ! ch \<noteq> 2"
      using assms by (auto simp add: chan_inv_def)
    then show ?thesis
      using assms by (cases m) (simp_all add: route_reply [OF f Some] chan_inv_def)
  qed
qed

lemma inv_recv_step:
  assumes "chan_inv w"
  shows "chan_inv (snd (recv_step X rd w))"
  using assms
  by (auto simp add: recv_step_def inv_route split: sum.splits option.splits)

lemma inv_Create: "chan_inv w \<Longrightarrow> chan_inv (snd (Create X guid io e w))"
  by (rule inv_from_effect [OF _ effect_Create]) (auto simp add: chan_inv_def intro: heap_Create)

lemma inv_Attach: "chan_inv w \<Longrightarrow> chan_inv (snd (Attach X session plugin guid io e w))"
  by (rule inv_from_effect [OF _ effect_Attach]) (auto simp add: chan_inv_def intro: heap_Attach)

lemma inv_Detach: "chan_inv w \<Longrightarrow> chan_inv (snd (Detach X handle guid io e w))"
  by (rule inv_from_effect [OF _ effect_Detach]) (auto simp add: chan_inv_def intro: heap_Detach)

lemma inv_apply_op: "chan_inv w \<Longrightarrow> chan_inv (apply_op X operation w)"
  by (cases operation)
     (auto intro: inv_recv_step inv_plain inv_Create inv_Attach inv_Detach effect_Info
        effect_KeepAlive effect_Destroy effect_Request effect_Message effect_Trickle
        effect_TrickleMany)

lemma inv_run: "chan_inv w \<Longrightarrow> chan_inv (run X ops w)"
  by (induction ops arbitrary: w) (simp_all add: inv_apply_op)

lemma inv_Connect: "chan_inv (Connect secret)"
  by (simp add: chan_inv_def Connect_def)


lemma used_effect:
  "registry_effect guid w w' \<Longrightarrow> used (transactionsUsed w) k \<Longrightarrow> guid \<noteq> k \<Longrightarrow>
     used (transactionsUsed w') k"
  by (auto simp add: registry_effect_def used_def)

lemma used_plain:
  "plain_effect guid w w' \<Longrightarrow> used (transactionsUsed w) k \<Longrightarrow> guid \<noteq> k \<Longrightarrow>
     used (transactionsUsed w') k"
  by (auto simp add: plain_effect_def intro: used_effect)

lemma used_route:
  "used (transactionsUsed w) k \<Longrightarrow> used (transactionsUsed (snd (route X base m w))) k"
  by (auto simp add: route_def Let_def used_def split: option.splits msg.splits)

lemma used_recv_step:
  "used (transactionsUsed w) k \<Longrightarrow> used (transactionsUsed (snd (recv_step X rd w))) k"
  by (auto simp add: recv_step_def used_route split: sum.splits option.splits)

lemma used_apply_op:
  "used (transactionsUsed w) k \<Longrightarrow> op_guid operation \<noteq> Some k \<Longrightarrow>
     used (transactionsUsed (apply_op X operation w)) k"
  by (cases operation)
     (auto intro: used_recv_step
        used_plain [OF effect_Info] used_effect [OF effect_Create]
        used_effect [OF effect_Attach] used_plain [OF effect_KeepAlive]
        used_plain [OF effect_Destroy] used_plain [OF effect_Request]
        used_plain [OF effect_Message] used_plain [OF effect_Trickle]
        used_plain [OF effect_TrickleMany] used_effect [OF effect_Detach])

lemma used_run:
  "used (transactionsUsed w) k \<Longrightarrow> \<forall>operation\<in>set ops. op_guid operation \<noteq> Some k \<Longrightarrow>
     used (transactionsUsed (run X ops w)) k"
  by (induction ops arbitrary: w) (simp_all add: used_apply_op)

lemma run_append: "run X (ops @ later) w = run X later (run X ops w)"
  by (induction ops arbitrary: w) simp_all

lemma sample_frames:
  "sample_BaseMsg ''event t3'' = Inr \<lparr>Type = ''event'', ID = ''t3'', Session = 7, Handle = 9\<rparr>"
  "sample_BaseMsg ''event t3 again''
     = Inr \<lparr>Type = ''event'', ID = ''t3'', Session = 7, Handle = 9\<rparr>"
  "sample_BaseMsg ''event for no handle''
     = Inr \<lparr>Type = ''event'', ID = [], Session = 7, Handle = 0\<rparr>"
  "sample_msgtypes ''event'' = Some (EventMsg [] None)"
  "sample_Unmarshal (EventMsg [] None) ''event t3'' = Inr (EventMsg ''event t3'' None)"
  "sample_Unmarshal (EventMsg [] None) ''event t3 again''
     = Inr (EventMsg ''event t3 again'' None)"
  "sample_Unmarshal (EventMsg [] None) ''event for no handle''
     = Inr (EventMsg ''event for no handle'' None)"
  "sample_FromString ''t3'' = 3"
  by (simp_all add: sample_BaseMsg_def sample_msgtypes_def sample_Unmarshal_def
      sample_FromString_def)

lemma sample_first_event:
  "snd (recv_step sample_extern (Inr ''event t3'') sample_state)
     = sample_state\<lparr>transactionsUsed := (transactionsUsed sample_state)(3 \<mapsto> True),
                    goroutines := [(4, EventMsg ''event t3'' None)]\<rparr>"
  by (simp add: recv_step_def route_def sample_frames sample_state_fields used_def Let_def)

lemma sample_after_keepalive:
  "session_lookup
     (snd (KeepAlive sample_extern 0 4 sent_ok (replies AckMsg)
        (snd (recv_step sample_extern (Inr ''event t3'') sample_state)))) 7
   = Some sample_session"
  "goroutines
     (snd (KeepAlive sample_extern 0 4 sent_ok (replies AckMsg)
        (snd (recv_step sample_extern (Inr ''event t3'') sample_state))))
   = [(4, EventMsg ''event t3'' None)]"
  by (simp_all add: sample_first_event KeepAlive_def send_defs session_lookup_def
      sample_state_fields)

lemma sample_two_events:
  "goroutines (run sample_extern
      (sample_ops @ [Op_recv (Inr ''event t3''), Op_recv (Inr ''event t3 again'')])
      (Connect ''secret''))
   = [(4, EventMsg ''event t3'' None), (3, EventMsg ''event t3 again'' None)]"
  "heap (run sample_extern
      (sample_ops @ [Op_recv (Inr ''event t3''), Op_recv (Inr ''event t3 again'')])
      (Connect ''secret'')) 0
   = Some sample_session"
  by (simp_all add: run_append sample_state_def [symmetric] sample_first_event
      recv_step_def route_def sample_frames sample_state_fields used_def Let_def)

subsection \<open>Event replies keep their transaction\<close>

text \<open>
  C2. Of a frame that the receive loop decodes to an \<^verbatim>\<open>EventMsg\<close> and that carries a
  transaction id which is registered and not marked as used: the turn returns no error,
  starts the delivery of the message on the transaction's channel, marks the id as used
  and keeps it registered. After any further turns of the loop and any requests whose
  generated ids differ from that id, the id is still marked. A later decoded frame with
  the same transaction id then makes the loop return no error, so it is not an unmatched
  transaction; and it is delivered as a push: when its handle id is not zero and the
  session and the handle it names exist, a \<^verbatim>\<open>passMsg\<close> goroutine is started for it on
  the event channel of that handle, and otherwise none is started on any channel.
\<close>

theorem event_reply_marks_transaction_later_frames_are_pushes:
  assumes "Unmarshal_BaseMsg X data = Inr base"
    and "msgtypes X (Type base) = Some blank"
    and "Unmarshal_msg X blank data = Inr (EventMsg p j)"
    and "ID base \<noteq> []"
    and "transactions w (xid_FromString X (ID base)) = Some ch"
    and "\<not> used (transactionsUsed w) (xid_FromString X (ID base))"
    and "\<forall>operation\<in>set ops. op_guid operation \<noteq> Some (xid_FromString X (ID base))"
    and "Unmarshal_BaseMsg X data' = Inr base'"
    and "msgtypes X (Type base') = Some blank'"
    and "Unmarshal_msg X blank' data' = Inr m'"
    and "ID base' = ID base"
  shows "let w1 = snd (recv_step X (Inr data) w); w2 = run X ops w1
         in fst (recv_step X (Inr data) w) = None
          \<and> goroutines w1 = goroutines w @ [(ch, EventMsg p j)]
          \<and> used (transactionsUsed w1) (xid_FromString X (ID base))
          \<and> transactions w1 (xid_FromString X (ID base)) = Some ch
          \<and> used (transactionsUsed w2) (xid_FromString X (ID base))
          \<and> fst (recv_step X (Inr data') w2) = None
          \<and> (Handle base' \<noteq> 0 \<and> session_lookup w2 (Session base') = Some s
               \<and> Handles s (Handle base') = Some h \<longrightarrow>
                 goroutines (snd (recv_step X (Inr data') w2))
                   = goroutines w2 @ [(Handle_Events h, m')])
          \<and> (goroutines (snd (recv_step X (Inr data') w2)) = goroutines w2
               \<or> (\<exists>s' h'. session_lookup w2 (Session base') = Some s'
                     \<and> Handles s' (Handle base') = Some h'
                     \<and> goroutines (snd (recv_step X (Inr data') w2))
                         = goroutines w2 @ [(Handle_Events h', m')]))"
proof -
  define k where "k = xid_FromString X (ID base)"
  define w1 where "w1 = snd (recv_step X (Inr data) w)"
  define w2 where "w2 = run X ops w1"
  have step1: "recv_step X (Inr data) w =
      (None, (logged w data [])\<lparr>transactionsUsed := (transactionsUsed w)(k \<mapsto> True),
                                 goroutines := goroutines w @ [(ch, EventMsg p j)]\<rparr>)"
    using assms(4-6)
    by (simp add: recv_step_decoded [OF assms(1-3)] route_reply k_def)
  have used1: "used (transactionsUsed w1) k" and tx1: "transactions w1 k = Some ch"
    and go1: "goroutines w1 = goroutines w @ [(ch, EventMsg p j)]"
    using assms(5) by (simp_all add: w1_def step1 used_def k_def)
  have used2: "used (transactionsUsed w2) k"
    unfolding w2_def using used1 assms(7) by (intro used_run) (simp_all add: k_def)
  then have push: "ID base' = []
      \<or> used (transactionsUsed (logged w2 data' [])) (xid_FromString X (ID base'))"
    by (simp add: assms(11) k_def)
  note step2 = recv_step_decoded [OF assms(8-10), of w2, unfolded route_push [OF push]]
  have fst1: "fst (recv_step X (Inr data) w) = None"
    by (simp add: step1)
  have fst2: "fst (recv_step X (Inr data') w2) = None"
    by (simp add: step2 split: option.splits)
  have found: "Handle base' \<noteq> 0 \<and> session_lookup w2 (Session base') = Some s
               \<and> Handles s (Handle base') = Some h \<longrightarrow>
                 goroutines (snd (recv_step X (Inr data') w2))
                   = goroutines w2 @ [(Handle_Events h, m')]"
    by (simp add: step2)
  have only: "goroutines (snd (recv_step X (Inr data') w2)) = goroutines w2
               \<or> (\<exists>s' h'. session_lookup w2 (Session base') = Some s'
                     \<and> Handles s' (Handle base') = Some h'
                     \<and> goroutines (snd (recv_step X (Inr data') w2))
                         = goroutines w2 @ [(Handle_Events h', m')])"
    by (simp add: step2 split: option.splits)
  note facts = fst1 go1 used1 tx1 used2 fst2 found only
  show ?thesis
    unfolding Let_def using facts [unfolded w2_def w1_def k_def] by blast
qed

theorem event_reply_marks_transaction_later_frames_are_pushes_witness:
  "fst (recv_step sample_extern (Inr ''event t3'') sample_state) = None
   \<and> used (transactionsUsed (snd (recv_step sample_extern (Inr ''event t3'') sample_state))) 3
   \<and> transactions (snd (recv_step sample_extern (Inr ''event t3'') sample_state)) 3 = Some 4
   \<and> fst (recv_step sample_extern (Inr ''event t3 again'')
        (run sample_extern [Op_KeepAlive 0 4 sent_ok (replies AckMsg)]
           (snd (recv_step sample_extern (Inr ''event t3'') sample_state)))) = None
   \<and> goroutines (snd (recv_step sample_extern (Inr ''event t3 again'')
        (run sample_extern [Op_KeepAlive 0 4 sent_ok (replies AckMsg)]
           (snd (recv_step sample_extern (Inr ''event t3'') sample_state)))))
     = [(4, EventMsg ''event t3'' None), (3, EventMsg ''event t3 again'' None)]"
proof -
  have fresh: "\<forall>operation\<in>set [Op_KeepAlive 0 4 sent_ok (replies AckMsg)].
      op_guid operation
        \<noteq> Some (xid_FromString sample_extern
                  (ID \<lparr>Type = ''event'', ID = ''t3'', Session = 7, Handle = 9\<rparr>))"
    by (simp add: sample_frames)
  have registered: "transactions sample_state
      (xid_FromString sample_extern
         (ID \<lparr>Type = ''event'', ID = ''t3'', Session = 7, Handle = 9\<rparr>)) = Some 4"
    and unused: "\<not> used (transactionsUsed sample_state)
      (xid_FromString sample_extern
         (ID \<lparr>Type = ''event'', ID = ''t3'', Session = 7, Handle = 9\<rparr>))"
    by (simp_all add: sample_frames sample_state_fields used_def)
  show ?thesis
    using event_reply_marks_transaction_later_frames_are_pushes [where X = sample_extern and data = "''event t3''"
        and base = "\<lparr>Type = ''event'', ID = ''t3'', Session = 7, Handle = 9\<rparr>"
        and blank = "EventMsg [] None" and p = "''event t3''" and j = None
        and w = sample_state and ch = 4
        and ops = "[Op_KeepAlive 0 4 sent_ok (replies AckMsg)]"
        and data' = "''event t3 again''"
        and base' = "\<lparr>Type = ''event'', ID = ''t3'', Session = 7, Handle = 9\<rparr>"
        and blank' = "EventMsg [] None" and m' = "EventMsg ''event t3 again'' None"
        and s = sample_session and h = sample_handle, OF _ _ _ _ registered unused fresh]
    by (simp add: Let_def sample_frames sample_after_keepalive sample_state_fields)
qed

subsection \<open>The event channel of a session is never sent on\<close>

text \<open>
  C10. The only sends on a channel are those of the \<^verbatim>\<open>passMsg\<close> goroutines that the
  receive loop starts, each on the channel it was given. In every state reached from
  \<^verbatim>\<open>Connect\<close> by turns of the receive loop and requests, whatever a goroutine that was
  started sends, it does not send it on the \<^verbatim>\<open>Events\<close> channel of any session. A decoded frame without transaction id, or with one marked as used, and with
  handle id zero is dropped: the turn returns no error, prints no line of its own and
  starts no delivery. And yet \<^verbatim>\<open>Create\<close>, answered by a \<^verbatim>\<open>SuccessMsg\<close>, makes for the new session an
  \<^verbatim>\<open>Events\<close> channel of capacity 2.
\<close>

theorem no_delivery_on_session_events:
  "(\<forall>c m r s accepted_at pick c' m'.
        (c, m) \<in> set (goroutines (run X ops (Connect secret)))
        \<and> heap (run X ops (Connect secret)) r = Some s
        \<and> passMsg c m accepted_at pick = Sent c' m' \<longrightarrow> c' \<noteq> Session_Events s)
   \<and> (Unmarshal_BaseMsg X data = Inr base \<and> msgtypes X (Type base) = Some blank
        \<and> Unmarshal_msg X blank data = Inr m'
        \<and> (ID base = [] \<or> used (transactionsUsed w) (xid_FromString X (ID base)))
        \<and> Handle base = 0 \<longrightarrow>
          recv_step X (Inr data) w = (None, logged w data []))
   \<and> (marshal_err io = None \<and> write_err io = None
        \<and> select_wait timeoutDuration e = Received (SuccessMsg d) \<longrightarrow>
          chans (snd (Create X guid io e w)) = chans w @ [0, 2]
          \<and> map_option Session_Events (heap (snd (Create X guid io e w)) (next_sref w))
              = Some (Suc (length (chans w))))"
proof (intro conjI allI impI)
  fix c m r s accepted_at pick c' m'
  assume a: "(c, m) \<in> set (goroutines (run X ops (Connect secret)))
        \<and> heap (run X ops (Connect secret)) r = Some s
        \<and> passMsg c m accepted_at pick = Sent c' m'"
  then have same: "c' = c"
    by (auto simp add: passMsg_def split: option.splits if_splits)
  have "chan_inv (run X ops (Connect secret))"
    by (intro inv_run inv_Connect)
  with a have "chans (run X ops (Connect secret)) ! c \<noteq> 2"
    and "chans (run X ops (Connect secret)) ! Session_Events s = 2"
    by (auto simp add: chan_inv_def ok_session_def)
  then show "c' \<noteq> Session_Events s"
    using same by auto
next
  assume a: "Unmarshal_BaseMsg X data = Inr base \<and> msgtypes X (Type base) = Some blank
        \<and> Unmarshal_msg X blank data = Inr m'
        \<and> (ID base = [] \<or> used (transactionsUsed w) (xid_FromString X (ID base)))
        \<and> Handle base = 0"
  then have "ID base = []
      \<or> used (transactionsUsed (logged w data [])) (xid_FromString X (ID base))"
    by simp
  from route_push [OF this] a
  show "recv_step X (Inr data) w = (None, logged w data [])"
    by (simp add: recv_step_decoded)
next
  assume a: "marshal_err io = None \<and> write_err io = None
        \<and> select_wait timeoutDuration e = Received (SuccessMsg d)"
  then show "chans (snd (Create X guid io e w)) = chans w @ [0, 2]"
    by (simp add: Create_def send_defs)
  from a show "map_option Session_Events (heap (snd (Create X guid io e w)) (next_sref w))
              = Some (Suc (length (chans w)))"
    by (simp add: Create_def send_defs)
qed

theorem no_delivery_on_session_events_witness:
  "(3, EventMsg ''event t3 again'' None)
     \<in> set (goroutines (run sample_extern
          (sample_ops @ [Op_recv (Inr ''event t3''), Op_recv (Inr ''event t3 again'')])
          (Connect ''secret'')))
   \<and> heap (run sample_extern
          (sample_ops @ [Op_recv (Inr ''event t3''), Op_recv (Inr ''event t3 again'')])
          (Connect ''secret'')) 0 = Some sample_session
   \<and> passMsg 3 (EventMsg ''event t3 again'' None) (Some 0) 0
       = Sent 3 (EventMsg ''event t3 again'' None)
   \<and> 3 \<noteq> Session_Events sample_session
   \<and> recv_step sample_extern (Inr ''event for no handle'') sample_state = (None, sample_state)
   \<and> chans (snd (Create sample_extern 4 sent_ok (replies (SuccessMsg 11)) sample_state))
       = [0, 2, 0, 8, 0, 0, 2]
   \<and> map_option Session_Events
        (heap (snd (Create sample_extern 4 sent_ok (replies (SuccessMsg 11)) sample_state)) 1)
       = Some 6"
proof -
  note inst = no_delivery_on_session_events [where X = sample_extern and secret = "''secret''"
      and ops = "sample_ops @ [Op_recv (Inr ''event t3''), Op_recv (Inr ''event t3 again'')]"
      and data = "''event for no handle''"
      and base = "\<lparr>Type = ''event'', ID = [], Session = 7, Handle = 0\<rparr>"
      and blank = "EventMsg [] None" and m' = "EventMsg ''event for no handle'' None"
      and w = sample_state and io = sent_ok and e = "replies (SuccessMsg 11)" and d = 11
      and guid = 4]
  have started: "(3, EventMsg ''event t3 again'' None)
     \<in> set (goroutines (run sample_extern
          (sample_ops @ [Op_recv (Inr ''event t3''), Op_recv (Inr ''event t3 again'')])
          (Connect ''secret'')))"
    and session: "heap (run sample_extern
          (sample_ops @ [Op_recv (Inr ''event t3''), Op_recv (Inr ''event t3 again'')])
          (Connect ''secret'')) 0 = Some sample_session"
    by (simp_all add: sample_two_events)
  have sent: "passMsg 3 (EventMsg ''event t3 again'' None) (Some 0) 0
       = Sent 3 (EventMsg ''event t3 again'' None)"
    by (simp add: passMsg_def timeoutDuration_def)
  have elsewhere: "3 \<noteq> Session_Events sample_session"
    using inst [THEN conjunct1] started session sent by blast
  have unchanged: "logged sample_state ''event for no handle'' [] = sample_state"
    by (simp add: logged_def sample_state_fields)
  have dropped: "recv_step sample_extern (Inr ''event for no handle'') sample_state
      = (None, sample_state)"
    using inst [THEN conjunct2, THEN conjunct1]
    by (simp add: sample_frames unchanged sample_state_fields)
  have buffered: "chans (snd (Create sample_extern 4 sent_ok (replies (SuccessMsg 11))
        sample_state)) = [0, 2, 0, 8, 0, 0, 2]
   \<and> map_option Session_Events
        (heap (snd (Create sample_extern 4 sent_ok (replies (SuccessMsg 11)) sample_state)) 1)
       = Some 6"
    using inst [THEN conjunct2, THEN conjunct2]
    by (simp add: sample_state_fields eval_nat_numeral)
  show ?thesis
    using started session sent elsewhere dropped buffered by blast
qed

subsection \<open>Sending: auxiliary facts\<close>

lemma Gateway_send_ok:
  "marshal_err io = None \<Longrightarrow> write_err io = None \<Longrightarrow>
     Gateway_send X guid io msg ch w =
       (None, w\<lparr>transactions := (transactions w)(guid \<mapsto> ch),
                 transactionsUsed := (transactionsUsed w)(guid \<mapsto> False),
                 stdout := stdout w @
                   (if LogJsonMessages w then
                      [JsonTx (if apiSecret w = []
                               then msg(''transaction'' \<mapsto> JString (xid_String X guid))
                               else msg(''transaction'' \<mapsto> JString (xid_String X guid),
                                        ''apisecret'' \<mapsto> JString (apiSecret w)))]
                    else []),
                 conn := conn w @
                   [if apiSecret w = []
                    then msg(''transaction'' \<mapsto> JString (xid_String X guid))
                    else msg(''transaction'' \<mapsto> JString (xid_String X guid),
                             ''apisecret'' \<mapsto> JString (apiSecret w))]\<rparr>)"
  by (simp add: Gateway_send_def Let_def)

lemmas wire_simps = newRequest_def make_chan_def Session_send_def Handle_send_def Let_def
  same_wire_def request_state_def

lemma wire_Info:
  "same_wire (request_state X guid io [''janus'' \<mapsto> JString ''info''] w)
     (snd (Info X guid io e w))"
  by (auto simp add: Info_def wire_simps
      split: prod.splits option.splits select_outcome.splits msg.splits)

lemma wire_Create:
  "same_wire (request_state X guid io [''janus'' \<mapsto> JString ''create''] w)
     (snd (Create X guid io e w))"
  by (auto simp add: Create_def wire_simps
      split: prod.splits option.splits select_outcome.splits msg.splits)

lemma wire_Attach:
  "heap w session = Some s \<Longrightarrow>
   same_wire (request_state X guid io
       [''janus'' \<mapsto> JString ''attach'', ''plugin'' \<mapsto> JString plugin,
        ''session_id'' \<mapsto> JUint (Session_ID s)] w)
     (snd (Attach X session plugin guid io e w))"
  by (auto simp add: Attach_def wire_simps
      split: prod.splits option.splits select_outcome.splits msg.splits)

lemma wire_KeepAlive:
  "heap w session = Some s \<Longrightarrow>
   same_wire (request_state X guid io
       [''janus'' \<mapsto> JString ''keepalive'', ''session_id'' \<mapsto> JUint (Session_ID s)] w)
     (snd (KeepAlive X session guid io e w))"
  by (auto simp add: KeepAlive_def wire_simps
      split: prod.splits option.splits select_outcome.splits msg.splits)

lemma wire_Destroy:
  "heap w session = Some s \<Longrightarrow>
   same_wire (request_state X guid io
       [''janus'' \<mapsto> JString ''destroy'', ''session_id'' \<mapsto> JUint (Session_ID s)] w)
     (snd (Destroy X session guid io e w))"
  by (auto simp add: Destroy_def wire_simps
      split: prod.splits option.splits select_outcome.splits msg.splits)

lemma wire_Detach:
  "heap w (Handle_session handle) = Some hs \<Longrightarrow>
   same_wire (request_state X guid io
       [''janus'' \<mapsto> JString ''detach'', ''handle_id'' \<mapsto> JUint (Handle_ID handle),
        ''session_id'' \<mapsto> JUint (Session_ID hs)] w)
     (snd (Detach X handle guid io e w))"
  by (auto simp add: Detach_def wire_simps
      split: prod.splits option.splits select_outcome.splits msg.splits)

lemma tagged_request:
  assumes "marshal_err io = None" and "write_err io = None"
    and "same_wire (request_state X guid io env w) (snd call)"
    and "env ''apisecret'' = None"
  shows "tagged call X guid w"
    and "env field = Some (JUint v) \<Longrightarrow> field \<noteq> ''transaction'' \<Longrightarrow>
           field \<noteq> ''apisecret'' \<Longrightarrow> carries call field v"
  using assms
  by (simp_all add: tagged_def carries_def same_wire_def request_state_def Gateway_send_ok)


lemma wire_Request:
  "heap w (Handle_session handle) = Some hs \<Longrightarrow>
   same_wire (request_state X guid io
       ((case body of None \<Rightarrow> [''janus'' \<mapsto> JString ''message'']
         | Some b \<Rightarrow> [''janus'' \<mapsto> JString ''message'', ''body'' \<mapsto> JValue b])
        (''handle_id'' \<mapsto> JUint (Handle_ID handle),
         ''session_id'' \<mapsto> JUint (Session_ID hs))) w)
     (snd (Request X handle body guid io e w))"
  by (auto simp add: Request_def wire_simps
      split: prod.splits option.splits select_outcome.splits msg.splits)

lemma wire_Message:
  "heap w (Handle_session handle) = Some hs \<Longrightarrow>
   same_wire (request_state X guid io
       ((case jsep of
           None \<Rightarrow>
             (case body of None \<Rightarrow> [''janus'' \<mapsto> JString ''message'']
              | Some b \<Rightarrow> [''janus'' \<mapsto> JString ''message'', ''body'' \<mapsto> JValue b])
         | Some j \<Rightarrow>
             (case body of None \<Rightarrow> [''janus'' \<mapsto> JString ''message'']
              | Some b \<Rightarrow> [''janus'' \<mapsto> JString ''message'', ''body'' \<mapsto> JValue b])
             (''jsep'' \<mapsto> JValue j))
        (''handle_id'' \<mapsto> JUint (Handle_ID handle),
         ''session_id'' \<mapsto> JUint (Session_ID hs))) w)
     (snd (Message X handle body jsep guid io es w))"
  by (auto simp add: Message_def wire_simps split: prod.splits option.splits)

lemma wire_Trickle:
  "heap w (Handle_session handle) = Some hs \<Longrightarrow>
   same_wire (request_state X guid io
       [''janus'' \<mapsto> JString ''trickle'', ''candidate'' \<mapsto> JValue candidate,
        ''handle_id'' \<mapsto> JUint (Handle_ID handle),
        ''session_id'' \<mapsto> JUint (Session_ID hs)] w)
     (snd (Trickle X handle candidate guid io e w))"
  by (auto simp add: Trickle_def wire_simps
      split: prod.splits option.splits select_outcome.splits msg.splits)

lemma wire_TrickleMany:
  "heap w (Handle_session handle) = Some hs \<Longrightarrow>
   same_wire (request_state X guid io
       [''janus'' \<mapsto> JString ''trickle'', ''candidates'' \<mapsto> JValue candidates,
        ''handle_id'' \<mapsto> JUint (Handle_ID handle),
        ''session_id'' \<mapsto> JUint (Session_ID hs)] w)
     (snd (TrickleMany X handle candidates guid io e w))"
  by (auto simp add: TrickleMany_def wire_simps
      split: prod.splits option.splits select_outcome.splits msg.splits)

subsection \<open>Sending: the transaction id, the secret, the session and handle ids\<close>

text \<open>
  C9. \<^verbatim>\<open>Gateway.send\<close> registers the id it got from \<^verbatim>\<open>generateTransactionId\<close> with the
  request's channel, unmarked, before it encodes and writes: the registration is there
  also when encoding or writing fails, and then nothing was written. When both succeed it
  writes one envelope, the given one with the id in the field \<open>transaction\<close> and, exactly
  when the gateway's secret is not empty, the secret in the field \<open>apisecret\<close>. So each
  of the ten requests, once sent, is tagged in this way; those on a session carry the
  session's id in \<open>session_id\<close>, and those on a handle carry the handle's id in
  \<open>handle_id\<close> and the id of the handle's session in \<open>session_id\<close>. (That the id is
  fresh is the contract of \<^verbatim>\<open>xid.New\<close>, outside the package.)
\<close>

theorem send_tags_and_registers_before_writing:
  assumes "heap w session = Some s"
    and "heap w (Handle_session handle) = Some hs"
  shows "transactions (snd (Gateway_send X guid io msg ch w)) guid = Some ch
       \<and> transactionsUsed (snd (Gateway_send X guid io msg ch w)) guid = Some False
       \<and> (marshal_err io \<noteq> None \<or> write_err io \<noteq> None \<longrightarrow>
            fst (Gateway_send X guid io msg ch w) \<noteq> None
            \<and> conn (snd (Gateway_send X guid io msg ch w)) = conn w)
       \<and> (marshal_err io = None \<and> write_err io = None \<longrightarrow>
            fst (Gateway_send X guid io msg ch w) = None
            \<and> conn (snd (Gateway_send X guid io msg ch w)) =
                conn w @ [if apiSecret w = []
                          then msg(''transaction'' \<mapsto> JString (xid_String X guid))
                          else msg(''transaction'' \<mapsto> JString (xid_String X guid),
                                   ''apisecret'' \<mapsto> JString (apiSecret w))]
            \<and> tagged (Info X guid io e w) X guid w
            \<and> tagged (Create X guid io e w) X guid w
            \<and> tagged (Attach X session plugin guid io e w) X guid w
            \<and> carries (Attach X session plugin guid io e w) ''session_id'' (Session_ID s)
            \<and> tagged (KeepAlive X session guid io e w) X guid w
            \<and> carries (KeepAlive X session guid io e w) ''session_id'' (Session_ID s)
            \<and> tagged (Destroy X session guid io e w) X guid w
            \<and> carries (Destroy X session guid io e w) ''session_id'' (Session_ID s)
            \<and> tagged (Request X handle body guid io e w) X guid w
            \<and> carries (Request X handle body guid io e w) ''session_id'' (Session_ID hs)
            \<and> carries (Request X handle body guid io e w) ''handle_id'' (Handle_ID handle)
            \<and> tagged (Message X handle body jsep guid io es w) X guid w
            \<and> carries (Message X handle body jsep guid io es w) ''session_id'' (Session_ID hs)
            \<and> carries (Message X handle body jsep guid io es w) ''handle_id''
                 (Handle_ID handle)
            \<and> tagged (Trickle X handle candidate guid io e w) X guid w
            \<and> carries (Trickle X handle candidate guid io e w) ''session_id'' (Session_ID hs)
            \<and> carries (Trickle X handle candidate guid io e w) ''handle_id''
                 (Handle_ID handle)
            \<and> tagged (TrickleMany X handle candidates guid io e w) X guid w
            \<and> carries (TrickleMany X handle candidates guid io e w) ''session_id''
                 (Session_ID hs)
            \<and> carries (TrickleMany X handle candidates guid io e w) ''handle_id''
                 (Handle_ID handle)
            \<and> tagged (Detach X handle guid io e w) X guid w
            \<and> carries (Detach X handle guid io e w) ''session_id'' (Session_ID hs)
            \<and> carries (Detach X handle guid io e w) ''handle_id'' (Handle_ID handle))"
proof -
  have always: "transactions (snd (Gateway_send X guid io msg ch w)) guid = Some ch
       \<and> transactionsUsed (snd (Gateway_send X guid io msg ch w)) guid = Some False"
    by (simp add: Gateway_send_def Let_def split: option.splits)
  have failed: "marshal_err io \<noteq> None \<or> write_err io \<noteq> None \<longrightarrow>
            fst (Gateway_send X guid io msg ch w) \<noteq> None
            \<and> conn (snd (Gateway_send X guid io msg ch w)) = conn w"
    by (auto simp add: Gateway_send_def Let_def split: option.splits)
  {
    assume ok: "marshal_err io = None" "write_err io = None"
    note t = tagged_request [OF ok]
    have "fst (Gateway_send X guid io msg ch w) = None
            \<and> conn (snd (Gateway_send X guid io msg ch w)) =
                conn w @ [if apiSecret w = []
                          then msg(''transaction'' \<mapsto> JString (xid_String X guid))
                          else msg(''transaction'' \<mapsto> JString (xid_String X guid),
                                   ''apisecret'' \<mapsto> JString (apiSecret w))]"
      by (simp add: Gateway_send_ok [OF ok])
    moreover have "tagged (Info X guid io e w) X guid w"
      by (rule t(1) [OF wire_Info]) simp
    moreover have "tagged (Create X guid io e w) X guid w"
      by (rule t(1) [OF wire_Create]) simp
    moreover have "tagged (Attach X session plugin guid io e w) X guid w"
      "carries (Attach X session plugin guid io e w) ''session_id'' (Session_ID s)"
      by (rule t [OF wire_Attach [OF assms(1)]]; simp)+
    moreover have "tagged (KeepAlive X session guid io e w) X guid w"
      "carries (KeepAlive X session guid io e w) ''session_id'' (Session_ID s)"
      by (rule t [OF wire_KeepAlive [OF assms(1)]]; simp)+
    moreover have "tagged (Destroy X session guid io e w) X guid w"
      "carries (Destroy X session guid io e w) ''session_id'' (Session_ID s)"
      by (rule t [OF wire_Destroy [OF assms(1)]]; simp)+
    moreover have "tagged (Request X handle body guid io e w) X guid w"
      "carries (Request X handle body guid io e w) ''session_id'' (Session_ID hs)"
      "carries (Request X handle body guid io e w) ''handle_id'' (Handle_ID handle)"
      by (rule t [OF wire_Request [OF assms(2)]]; simp split: option.splits)+
    moreover have "tagged (Message X handle body jsep guid io es w) X guid w"
      "carries (Message X handle body jsep guid io es w) ''session_id'' (Session_ID hs)"
      "carries (Message X handle body jsep guid io es w) ''handle_id'' (Handle_ID handle)"
      by (rule t [OF wire_Message [OF assms(2)]]; simp split: option.splits)+
    moreover have "tagged (Trickle X handle candidate guid io e w) X guid w"
      "carries (Trickle X handle candidate guid io e w) ''session_id'' (Session_ID hs)"
      "carries (Trickle X handle candidate guid io e w) ''handle_id'' (Handle_ID handle)"
      by (rule t [OF wire_Trickle [OF assms(2)]]; simp)+
    moreover have "tagged (TrickleMany X handle candidates guid io e w) X guid w"
      "carries (TrickleMany X handle candidates guid io e w) ''session_id'' (Session_ID hs)"
      "carries (TrickleMany X handle candidates guid io e w) ''handle_id'' (Handle_ID handle)"
      by (rule t [OF wire_TrickleMany [OF assms(2)]]; simp)+
    moreover have "tagged (Detach X handle guid io e w) X guid w"
      "carries (Detach X handle guid io e w) ''session_id'' (Session_ID hs)"
      "carries (Detach X handle guid io e w) ''handle_id'' (Handle_ID handle)"
      by (rule t [OF wire_Detach [OF assms(2)]]; simp)+
    ultimately have "fst (Gateway_send X guid io msg ch w) = None
            \<and> conn (snd (Gateway_send X guid io msg ch w)) =
                conn w @ [if apiSecret w = []
                          then msg(''transaction'' \<mapsto> JString (xid_String X guid))
                          else msg(''transaction'' \<mapsto> JString (xid_String X guid),
                                   ''apisecret'' \<mapsto> JString (apiSecret w))]
            \<and> tagged (Info X guid io e w) X guid w
            \<and> tagged (Create X guid io e w) X guid w
            \<and> tagged (Attach X session plugin guid io e w) X guid w
            \<and> carries (Attach X session plugin guid io e w) ''session_id'' (Session_ID s)
            \<and> tagged (KeepAlive X session guid io e w) X guid w
            \<and> carries (KeepAlive X session guid io e w) ''session_id'' (Session_ID s)
            \<and> tagged (Destroy X session guid io e w) X guid w
            \<and> carries (Destroy X session guid io e w) ''session_id'' (Session_ID s)
            \<and> tagged (Request X handle body guid io e w) X guid w
            \<and> carries (Request X handle body guid io e w) ''session_id'' (Session_ID hs)
            \<and> carries (Request X handle body guid io e w) ''handle_id'' (Handle_ID handle)
            \<and> tagged (Message X handle body jsep guid io es w) X guid w
            \<and> carries (Message X handle body jsep guid io es w) ''session_id'' (Session_ID hs)
            \<and> carries (Message X handle body jsep guid io es w) ''handle_id''
                 (Handle_ID handle)
            \<and> tagged (Trickle X handle candidate guid io e w) X guid w
            \<and> carries (Trickle X handle candidate guid io e w) ''session_id'' (Session_ID hs)
            \<and> carries (Trickle X handle candidate guid io e w) ''handle_id''
                 (Handle_ID handle)
            \<and> tagged (TrickleMany X handle candidates guid io e w) X guid w
            \<and> carries (TrickleMany X handle candidates guid io e w) ''session_id''
                 (Session_ID hs)
            \<and> carries (TrickleMany X handle candidates guid io e w) ''handle_id''
                 (Handle_ID handle)
            \<and> tagged (Detach X handle guid io e w) X guid w
            \<and> carries (Detach X handle guid io e w) ''session_id'' (Session_ID hs)
            \<and> carries (Detach X handle guid io e w) ''handle_id'' (Handle_ID handle)"
      by blast
  }
  with always failed show ?thesis
    by blast
qed

theorem send_tags_and_registers_before_writing_witness:
  "last (conn (snd (Detach sample_extern sample_handle 4 sent_ok silence sample_state)))
       ''transaction'' = Some (JString ''t0'')
   \<and> last (conn (snd (Detach sample_extern sample_handle 4 sent_ok silence sample_state)))
       ''apisecret'' = Some (JString ''secret'')
   \<and> last (conn (snd (Detach sample_extern sample_handle 4 sent_ok silence sample_state)))
       ''session_id'' = Some (JUint 7)
   \<and> last (conn (snd (Detach sample_extern sample_handle 4 sent_ok silence sample_state)))
       ''handle_id'' = Some (JUint 9)
   \<and> last (conn (snd (KeepAlive sample_extern 0 4 sent_ok silence sample_state)))
       ''session_id'' = Some (JUint 7)
   \<and> transactions (snd (Detach sample_extern sample_handle 4 sent_ok silence sample_state)) 4
       = Some 5
   \<and> transactions (snd (Gateway_send sample_extern 4
         \<lparr>marshal_err = None, write_err = Some (External ''closed'')\<rparr>
         [''janus'' \<mapsto> JString ''info''] 5 sample_state)) 4 = Some 5
   \<and> conn (snd (Gateway_send sample_extern 4
         \<lparr>marshal_err = None, write_err = Some (External ''closed'')\<rparr>
         [''janus'' \<mapsto> JString ''info''] 5 sample_state)) = conn sample_state"
  using send_tags_and_registers_before_writing [OF sample_sessions,
      where X = sample_extern and guid = 4 and io = sent_ok and e = silence
      and msg = "[''janus'' \<mapsto> JString ''info'']" and ch = 5 and plugin = "[]"
      and body = None and jsep = None and es = "[]" and candidate = "[]"
      and candidates = "[]"]
    send_tags_and_registers_before_writing [OF sample_sessions,
      where X = sample_extern and guid = 4
      and io = "\<lparr>marshal_err = None, write_err = Some (External ''closed'')\<rparr>"
      and e = silence and msg = "[''janus'' \<mapsto> JString ''info'']" and ch = 5
      and plugin = "[]" and body = None and jsep = None and es = "[]" and candidate = "[]"
      and candidates = "[]"]
  by (simp add: tagged_def carries_def sample_state_fields sample_String_def)

end
